theory Spec2Isabelle
  imports Main "HOL-Library.Word"
begin

section \<open>JavaScript values\<close>

text \<open>
  A JavaScript string is a sequence of 16-bit code units; \<open>length\<close> and the regular
  expressions of the source (which carry no \<open>u\<close> flag) count code units.
  \<open>str\<close> writes an ASCII literal.
\<close>

type_synonym cu = "16 word"
type_synonym jsstring = "cu list"

definition str :: "string \<Rightarrow> jsstring" where
  "str cs = map (\<lambda>c. of_nat (of_char c)) cs"

text \<open>
  Numbers: \<open>NaN\<close>, the two infinities and the finite values. Finite values are
  integers (below \<open>10^21\<close> in magnitude, where \<open>String(n)\<close> is the decimal numeral);
  fractions are outside the model.
\<close>

datatype jsnum = NaN | NegInf | Fin int | PosInf

fun num_lt :: "jsnum \<Rightarrow> jsnum \<Rightarrow> bool" where
  "num_lt NaN _ = False"
| "num_lt _ NaN = False"
| "num_lt (Fin a) (Fin b) = (a < b)"
| "num_lt NegInf NegInf = False"
| "num_lt NegInf _ = True"
| "num_lt _ NegInf = False"
| "num_lt PosInf _ = False"
| "num_lt _ PosInf = True"

definition num_gt :: "jsnum \<Rightarrow> jsnum \<Rightarrow> bool" where
  "num_gt a b = num_lt b a"

fun num_truthy :: "jsnum \<Rightarrow> bool" where
  "num_truthy NaN = False"
| "num_truthy (Fin n) = (n \<noteq> 0)"
| "num_truthy _ = True"

record blob =
  blob_size :: nat
  blob_type :: jsstring
  blob_bytes :: "8 word list"

text \<open>
  The JSON text is modelled by its syntax tree: the text is an injective rendering of
  the tree.
\<close>

datatype json =
    JsonNull
  | JsonBool bool
  | JsonNumber int
  | JsonString jsstring
  | JsonArray "json list"
  | JsonObject "(jsstring \<times> json) list"

text \<open>
  The values a caller can pass as \<open>unknown\<close>. \<open>JObj\<close> is a plain object (its
  prototype is \<open>Object.prototype\<close>) with its own enumerable properties in enumeration
  order; \<open>JInst\<close> is an instance of some other class, whose prototype adds no
  \<open>toString\<close> and no \<open>toJSON\<close>; \<open>JWrapper\<close> is the Boolean, Number or String object
  that \<open>Object(p)\<close> makes of a primitive \<open>p\<close>. \<open>JFun\<close> is a function, given by its
  source text and by what \<open>JSON.stringify\<close> obtains when it calls the function as the
  \<open>toJSON\<close> method of the object that holds it: the JSON text of the value returned,
  \<open>None\<close> where that value has none (the function returns \<open>undefined\<close>, say).
\<close>

datatype jsval =
    JUndefined
  | JNull
  | JBool bool
  | JNum jsnum
  | JStr jsstring
  | JArr "jsval list"
  | JObj "(jsstring \<times> jsval) list"
  | JInst "(jsstring \<times> jsval) list"
  | JBlob blob
  | JFun jsstring "json option"
  | JWrapper jsval

text \<open>\<open>Boolean(v)\<close>, the test of \<open>if (v)\<close>, \<open>v || d\<close> and \<open>filter(Boolean)\<close>.\<close>

fun truthy :: "jsval \<Rightarrow> bool" where
  "truthy JUndefined = False"
| "truthy JNull = False"
| "truthy (JBool b) = b"
| "truthy (JNum n) = num_truthy n"
| "truthy (JStr s) = (s \<noteq> [])"
| "truthy _ = True"

subsection \<open>String(v)\<close>

text \<open>
  An object is converted by the \<open>toString\<close> it inherits; an object with an own
  property \<open>toString\<close> or \<open>valueOf\<close> is outside what \<open>to_String\<close> describes.
\<close>

fun digits :: "nat \<Rightarrow> jsstring" where
  "digits n = (if n < 10 then [of_nat (48 + n)] else digits (n div 10) @ [of_nat (48 + n mod 10)])"

definition int_to_string :: "int \<Rightarrow> jsstring" where
  "int_to_string n = (if n < 0 then str ''-'' @ digits (nat (- n)) else digits (nat n))"

fun num_to_string :: "jsnum \<Rightarrow> jsstring" where
  "num_to_string NaN = str ''NaN''"
| "num_to_string NegInf = str ''-Infinity''"
| "num_to_string PosInf = str ''Infinity''"
| "num_to_string (Fin n) = int_to_string n"

fun join_comma :: "jsstring list \<Rightarrow> jsstring" where
  "join_comma [] = []"
| "join_comma [s] = s"
| "join_comma (s # t # ss) = s @ str '','' @ join_comma (t # ss)"

fun to_String :: "jsval \<Rightarrow> jsstring" where
  "to_String JUndefined = str ''undefined''"
| "to_String JNull = str ''null''"
| "to_String (JBool b) = (if b then str ''true'' else str ''false'')"
| "to_String (JNum n) = num_to_string n"
| "to_String (JStr s) = s"
| "to_String (JArr xs) =
     join_comma (map (\<lambda>x. if x = JUndefined \<or> x = JNull then [] else to_String x) xs)"
| "to_String (JObj ps) = str ''[object Object]''"
| "to_String (JInst ps) = str ''[object Object]''"
| "to_String (JBlob b) = str ''[object Blob]''"
| "to_String (JFun src r) = src"
| "to_String (JWrapper x) = to_String x"

subsection \<open>JSON.stringify\<close>

text \<open>
  \<open>JSON.stringify(v) === '{}'\<close> is \<open>JSON_stringify v = Some (JsonObject [])\<close> and
  \<open>=== '[]'\<close> is \<open>= Some (JsonArray [])\<close>; \<open>None\<close> is the result \<open>undefined\<close>.
  An object whose property \<open>toJSON\<close> holds a function is serialised as what that
  function returns. A property whose value serialises to \<open>undefined\<close> is left out of
  an object and becomes \<open>null\<close> in an array; \<open>NaN\<close> and the infinities become
  \<open>null\<close>; a wrapper object is serialised as its primitive; a Blob has no own
  enumerable property.
\<close>

definition toJSON_of :: "(jsstring \<times> jsval) list \<Rightarrow> json option option" where
  "toJSON_of ps = (case map_of ps (str ''toJSON'') of Some (JFun src r) \<Rightarrow> Some r | _ \<Rightarrow> None)"

fun JSON_stringify :: "jsval \<Rightarrow> json option"
and JSON_elements :: "jsval list \<Rightarrow> json list"
and JSON_members :: "(jsstring \<times> jsval) list \<Rightarrow> (jsstring \<times> json) list" where
  "JSON_stringify JUndefined = None"
| "JSON_stringify JNull = Some JsonNull"
| "JSON_stringify (JBool b) = Some (JsonBool b)"
| "JSON_stringify (JNum n) = (case n of Fin i \<Rightarrow> Some (JsonNumber i) | _ \<Rightarrow> Some JsonNull)"
| "JSON_stringify (JStr s) = Some (JsonString s)"
| "JSON_stringify (JArr xs) = Some (JsonArray (JSON_elements xs))"
| "JSON_stringify (JObj ps) =
     (case toJSON_of ps of Some r \<Rightarrow> r | None \<Rightarrow> Some (JsonObject (JSON_members ps)))"
| "JSON_stringify (JInst ps) =
     (case toJSON_of ps of Some r \<Rightarrow> r | None \<Rightarrow> Some (JsonObject (JSON_members ps)))"
| "JSON_stringify (JBlob b) = Some (JsonObject [])"
| "JSON_stringify (JFun src r) = None"
| "JSON_stringify (JWrapper x) = JSON_stringify x"
| "JSON_elements [] = []"
| "JSON_elements (x # xs) =
     (case JSON_stringify x of None \<Rightarrow> JsonNull | Some j \<Rightarrow> j) # JSON_elements xs"
| "JSON_members [] = []"
| "JSON_members ((k, x) # ps) =
     (case JSON_stringify x of None \<Rightarrow> JSON_members ps | Some j \<Rightarrow> (k, j) # JSON_members ps)"

text \<open>\<open>JSON.parse\<close>, on the syntax tree.\<close>

fun JSON_parse :: "json \<Rightarrow> jsval"
and JSON_parse_elements :: "json list \<Rightarrow> jsval list"
and JSON_parse_members :: "(jsstring \<times> json) list \<Rightarrow> (jsstring \<times> jsval) list" where
  "JSON_parse JsonNull = JNull"
| "JSON_parse (JsonBool b) = JBool b"
| "JSON_parse (JsonNumber n) = JNum (Fin n)"
| "JSON_parse (JsonString s) = JStr s"
| "JSON_parse (JsonArray js) = JArr (JSON_parse_elements js)"
| "JSON_parse (JsonObject ms) = JObj (JSON_parse_members ms)"
| "JSON_parse_elements [] = []"
| "JSON_parse_elements (j # js) = JSON_parse j # JSON_parse_elements js"
| "JSON_parse_members [] = []"
| "JSON_parse_members ((k, j) # ms) = (k, JSON_parse j) # JSON_parse_members ms"

section \<open>Regular expressions\<close>

text \<open>
  The fragment of ECMAScript regular expressions the source uses: character classes
  over code units (as inclusive ranges, possibly negated), concatenation, alternation,
  greedy bounded and unbounded repetition, positive lookahead and the two anchors
  (without the \<open>m\<close> flag). \<open>rmatch r s i\<close> lists the positions where a match of
  \<open>r\<close> that starts at position \<open>i\<close> of \<open>s\<close> can end, in backtracking order.
\<close>

datatype cclass = CharSet "(cu \<times> cu) list" | NotCharSet "(cu \<times> cu) list"

fun in_ranges :: "(cu \<times> cu) list \<Rightarrow> cu \<Rightarrow> bool" where
  "in_ranges [] c = False"
| "in_ranges ((lo, hi) # rs) c = ((lo \<le> c \<and> c \<le> hi) \<or> in_ranges rs c)"

fun in_class :: "cclass \<Rightarrow> cu \<Rightarrow> bool" where
  "in_class (CharSet rs) c = in_ranges rs c"
| "in_class (NotCharSet rs) c = (\<not> in_ranges rs c)"

datatype rexp =
    Empty
  | Chars cclass
  | Seq rexp rexp
  | Alt rexp rexp
  | Repeat nat "nat option" rexp
  | Lookahead rexp
  | Bol
  | Eol

text \<open>
  Repetition follows the RepeatMatcher of the language definition: once the minimum
  is met, an iteration that matches the empty string is rejected. The first argument
  after the matcher bounds the number of iterations; every iteration either uses up one
  of the \<open>lo\<close> mandatory rounds or moves forward in the string, so
  \<open>lo + length s + 1\<close> rounds are never used up.
\<close>

fun repeat_from :: "(nat \<Rightarrow> nat list) \<Rightarrow> nat \<Rightarrow> nat \<Rightarrow> nat option \<Rightarrow> nat \<Rightarrow> nat list"
and repeat_each :: "(nat \<Rightarrow> nat list) \<Rightarrow> nat \<Rightarrow> nat \<Rightarrow> nat option \<Rightarrow> nat \<Rightarrow> nat list \<Rightarrow> nat list" where
  "repeat_from m 0 lo hi i = (if lo = 0 then [i] else [])"
| "repeat_from m (Suc k) lo hi i =
     (if hi = Some 0 then [i]
      else repeat_each m k lo hi i (m i) @ (if lo = 0 then [i] else []))"
| "repeat_each m k lo hi i [] = []"
| "repeat_each m k lo hi i (j # js) =
     (if lo = 0 \<and> j = i then []
      else repeat_from m k (lo - 1) (map_option (\<lambda>h. h - 1) hi) j)
     @ repeat_each m k lo hi i js"

primrec rmatch :: "rexp \<Rightarrow> jsstring \<Rightarrow> nat \<Rightarrow> nat list" where
  "rmatch Empty s i = [i]"
| "rmatch (Chars c) s i = (if i < length s \<and> in_class c (s ! i) then [Suc i] else [])"
| "rmatch (Seq a b) s i = concat (map (rmatch b s) (rmatch a s i))"
| "rmatch (Alt a b) s i = rmatch a s i @ rmatch b s i"
| "rmatch (Repeat lo hi a) s i = repeat_from (rmatch a s) (Suc (lo + length s)) lo hi i"
| "rmatch (Lookahead a) s i = (if rmatch a s i = [] then [] else [i])"
| "rmatch Bol s i = (if i = 0 then [i] else [])"
| "rmatch Eol s i = (if i = length s then [i] else [])"

text \<open>
  \<open>RegExp.prototype.test\<close> of a regular expression without the \<open>g\<close> and \<open>y\<close>
  flags: the match is tried at the start positions \<open>0, 1, ..., length s\<close> in turn.
\<close>

primrec search_from :: "rexp \<Rightarrow> jsstring \<Rightarrow> nat \<Rightarrow> nat \<Rightarrow> bool" where
  "search_from r s i 0 = False"
| "search_from r s i (Suc k) = (rmatch r s i \<noteq> [] \<or> search_from r s (Suc i) k)"

definition regexp_test :: "rexp \<Rightarrow> jsstring \<Rightarrow> bool" where
  "regexp_test r s = search_from r s 0 (Suc (length s))"

fun seqs :: "rexp list \<Rightarrow> rexp" where
  "seqs [] = Empty"
| "seqs [r] = r"
| "seqs (r # rs) = Seq r (seqs rs)"

definition one :: "cu \<Rightarrow> cu \<times> cu" where
  "one c = (c, c)"

definition chr :: "cu \<Rightarrow> rexp" where
  "chr c = Chars (CharSet [one c])"

definition star :: "rexp \<Rightarrow> rexp" where
  "star r = Repeat 0 None r"

definition plus1 :: "rexp \<Rightarrow> rexp" where
  "plus1 r = Repeat 1 None r"

text \<open>\<open>.\<close> is every code unit but the line terminators LF, CR, U+2028 and U+2029.\<close>

definition dot :: rexp where
  "dot = Chars (NotCharSet [one 0x0A, one 0x0D, (0x2028, 0x2029)])"

text \<open>\<open>\s\<close>: the white space and line terminator code units.\<close>

definition white_space :: "(cu \<times> cu) list" where
  "white_space = [(0x09, 0x0D), one 0x20, one 0xA0, one 0x1680, (0x2000, 0x200A),
     (0x2028, 0x2029), one 0x202F, one 0x205F, one 0x3000, one 0xFEFF]"

definition digit :: "(cu \<times> cu) list" where
  "digit = [(0x30, 0x39)]"

definition letter :: "(cu \<times> cu) list" where
  "letter = [(0x61, 0x7A), (0x41, 0x5A)]"

text \<open>A literal run of code units, as a pattern.\<close>

definition lit :: "jsstring \<Rightarrow> rexp" where
  "lit s = seqs (map chr s)"

section \<open>The predicate library\<close>

text \<open>\<open>JSON.stringify(value.filter(Boolean)) === '[]'\<close> on an array.\<close>

definition isArrayEmpty :: "jsval \<Rightarrow> bool" where
  "isArrayEmpty v =
     (case v of JArr xs \<Rightarrow> JSON_stringify (JArr (filter truthy xs)) = Some (JsonArray [])
      | _ \<Rightarrow> False)"

text \<open>
  \<open>value.constructor === Object\<close> holds for a plain object unless an own property
  named \<open>constructor\<close> shadows the inherited one.
\<close>

definition isObjectEmpty :: "jsval \<Rightarrow> bool" where
  "isObjectEmpty v =
     (case v of
        JObj ps \<Rightarrow> map_of ps (str ''constructor'') = None
                   \<and> JSON_stringify v = Some (JsonObject [])
      | _ \<Rightarrow> False)"

definition isBlobEmpty :: "jsval \<Rightarrow> bool" where
  "isBlobEmpty v = (case v of JBlob b \<Rightarrow> blob_size b = 0 \<or> blob_type b = [] | _ \<Rightarrow> False)"

text \<open>The pattern \<open>/^\s*$/\<close>.\<close>

definition blank_reg :: rexp where
  "blank_reg = seqs [Bol, star (Chars (CharSet white_space)), Eol]"

definition isStringEmpty :: "jsval \<Rightarrow> bool" where
  "isStringEmpty v = (case v of JStr s \<Rightarrow> regexp_test blank_reg s | _ \<Rightarrow> False)"

definition isNumberEmpty :: "jsval \<Rightarrow> bool" where
  "isNumberEmpty v = (case v of JNum n \<Rightarrow> n = NaN | _ \<Rightarrow> False)"

definition isEmpty :: "jsval \<Rightarrow> bool" where
  "isEmpty v =
     (if v = JUndefined then True
      else if v = JNull then True
      else if isNumberEmpty v then True
      else if isStringEmpty v then True
      else if isArrayEmpty v then True
      else if isObjectEmpty v then True
      else if isBlobEmpty v then True
      else False)"



subsection \<open>Pattern lists\<close>

text \<open>
  The errors the runtime throws in this program: a call of what is not a function (or
  of a built-in method without its receiver), a pattern or a function text that does
  not compile, and the refusal of the host to compile a function from a string.
\<close>

datatype exn = TypeError | SyntaxError | EvalError

text \<open>
  \<open>isTextIncludes\<close> and \<open>isTextExcludes\<close> take an \<open>Array<string | RegExp>\<close>. The
  RegExp objects come from the caller and may carry the \<open>g\<close> or \<open>y\<close> flag, so that
  \<open>test\<close> reads and writes their \<open>lastIndex\<close>. The two functions are therefore
  modelled over any regular expression engine: \<open>RegExp_new\<close> is \<open>new RegExp(string)\<close>,
  which may throw, \<open>RegExp_test\<close> is \<open>test\<close>, and \<open>'s\<close> is the state of the engine's
  objects.
\<close>

datatype 'r pattern = PString jsstring | PRegExp 'r

record ('r, 's) RegExp_engine =
  RegExp_new :: "jsstring \<Rightarrow> 's \<Rightarrow> (exn + 'r) \<times> 's"
  RegExp_test :: "'r \<Rightarrow> jsstring \<Rightarrow> 's \<Rightarrow> bool \<times> 's"

fun isTextIncludes ::
  "('r, 's) RegExp_engine \<Rightarrow> 'r pattern list \<Rightarrow> jsstring \<Rightarrow> 's \<Rightarrow> (exn + bool) \<times> 's" where
  "isTextIncludes eng [] text st = (Inr False, st)"
| "isTextIncludes eng (PRegExp re # rest) text st =
     (case RegExp_test eng re text st of
        (True, st') \<Rightarrow> (Inr True, st')
      | (False, st') \<Rightarrow> isTextIncludes eng rest text st')"
| "isTextIncludes eng (PString v # rest) text st =
     (case RegExp_new eng v st of
        (Inl e, st') \<Rightarrow> (Inl e, st')
      | (Inr reg, st') \<Rightarrow>
          (case RegExp_test eng reg text st' of
             (True, st'') \<Rightarrow> (Inr True, st'')
           | (False, st'') \<Rightarrow> isTextIncludes eng rest text st''))"

fun isTextExcludes ::
  "('r, 's) RegExp_engine \<Rightarrow> 'r pattern list \<Rightarrow> jsstring \<Rightarrow> 's \<Rightarrow> (exn + bool) \<times> 's" where
  "isTextExcludes eng [] text st = (Inr True, st)"
| "isTextExcludes eng (PRegExp re # rest) text st =
     (case RegExp_test eng re text st of
        (True, st') \<Rightarrow> (Inr False, st')
      | (False, st') \<Rightarrow> isTextExcludes eng rest text st')"
| "isTextExcludes eng (PString v # rest) text st =
     (case RegExp_new eng v st of
        (Inl e, st') \<Rightarrow> (Inl e, st')
      | (Inr reg, st') \<Rightarrow>
          (case RegExp_test eng reg text st' of
             (True, st'') \<Rightarrow> (Inr False, st'')
           | (False, st'') \<Rightarrow> isTextExcludes eng rest text st''))"

section \<open>The validator functions\<close>

text \<open>
  The option payloads. The source declares \<open>BaseValidateOption\<close> (\<open>message\<close>,
  \<open>messageOption\<close>), \<open>PasswordValidateOption\<close> (\<open>min\<close>, \<open>max\<close>), the option of the
  equality validator (\<open>equal\<close>) and \<open>ImageOption\<close> (\<open>size\<close>, \<open>type\<close>, \<open>name\<close> and the
  four dimension bounds); the validator table erases the difference, so one record
  holds every declared property at its declared type, \<open>None\<close> where the object does
  not have it. \<open>no_option\<close> is the object \<open>{}\<close>.
\<close>

record MessageOption =
  for_minWidth :: "jsstring option"
  for_maxWidth :: "jsstring option"
  for_minHeight :: "jsstring option"
  for_maxHeight :: "jsstring option"
  for_size :: "jsstring option"
  for_type :: "jsstring option"
  for_name :: "jsstring option"

record ValidateOption =
  opt_message :: "jsstring option"
  opt_messageOption :: "MessageOption option"
  opt_min :: "jsnum option"
  opt_max :: "jsnum option"
  opt_equal :: "jsstring option"
  opt_size :: "jsnum option"
  opt_type :: "jsstring option"
  opt_name :: "jsstring option"
  opt_minWidth :: "jsnum option"
  opt_maxWidth :: "jsnum option"
  opt_minHeight :: "jsnum option"
  opt_maxHeight :: "jsnum option"

definition no_option :: ValidateOption where
  "no_option = \<lparr>opt_message = None, opt_messageOption = None, opt_min = None, opt_max = None,
     opt_equal = None, opt_size = None, opt_type = None, opt_name = None,
     opt_minWidth = None, opt_maxWidth = None, opt_minHeight = None, opt_maxHeight = None\<rparr>"

text \<open>The default messages of the source, as code units.\<close>

definition msg_isEmpty :: jsstring where
  "msg_isEmpty =
     [0x8F38, 0x5165, 0x8CC7, 0x6599, 0x4E0D, 0x5F97, 0x70BA, 0x7A7A]"

definition msg_email :: jsstring where
  "msg_email =
     [0x8ACB, 0x8F38, 0x5165, 0x6B63, 0x78BA, 0x7684, 0x96FB, 0x5B50, 0x90F5, 0x4EF6,
     0x4FE1, 0x7BB1, 0x683C, 0x5F0F]"

definition msg_password_head :: jsstring where
  "msg_password_head =
     [0x5BC6, 0x78BC, 0x8ACB, 0x8F38, 0x5165]"

definition msg_password_tail :: jsstring where
  "msg_password_tail =
     [0x78BC, 0x82F1, 0x6578, 0x6DF7, 0x5408]"

definition msg_equal :: jsstring where
  "msg_equal =
     [0x8F38, 0x5165, 0x8CC7, 0x6599, 0x4E0D, 0x76F8, 0x7B49]"

definition msg_minWidth :: jsstring where
  "msg_minWidth =
     [0x5716, 0x7247, 0x5BEC, 0x5EA6, 0x5927, 0x5C0F, 0x4F4E, 0x65BC, 0x9650, 0x5236]"

definition msg_maxWidth :: jsstring where
  "msg_maxWidth =
     [0x5716, 0x7247, 0x5BEC, 0x5EA6, 0x5927, 0x5C0F, 0x8D85, 0x51FA, 0x9650, 0x5236]"

definition msg_minHeight :: jsstring where
  "msg_minHeight =
     [0x5716, 0x7247, 0x9AD8, 0x5EA6, 0x5927, 0x5C0F, 0x4F4E, 0x65BC, 0x9650, 0x5236]"

definition msg_maxHeight :: jsstring where
  "msg_maxHeight =
     [0x5716, 0x7247, 0x9AD8, 0x5EA6, 0x5927, 0x5C0F, 0x8D85, 0x51FA, 0x9650, 0x5236]"

definition msg_size :: jsstring where
  "msg_size =
     [0x6A94, 0x6848, 0x5927, 0x5C0F, 0x8D85, 0x51FA, 0x9650, 0x5236]"

definition msg_type :: jsstring where
  "msg_type =
     [0x6A94, 0x6848, 0x985E, 0x578B, 0x932F, 0x8AA4]"


text \<open>\<open>s || d\<close> on an optional string and \<open>n || d\<close> on an optional number.\<close>

definition or_default :: "jsstring option \<Rightarrow> jsstring \<Rightarrow> jsstring" where
  "or_default m d = (case m of Some s \<Rightarrow> (if s \<noteq> [] then s else d) | None \<Rightarrow> d)"

definition num_or_default :: "jsnum option \<Rightarrow> jsnum \<Rightarrow> jsnum" where
  "num_or_default m d = (case m of Some n \<Rightarrow> (if num_truthy n then n else d) | None \<Rightarrow> d)"

definition is_set :: "jsnum option \<Rightarrow> bool" where
  "is_set m = (case m of Some n \<Rightarrow> num_truthy n | None \<Rightarrow> False)"

definition isEmptyValidator :: "jsval \<Rightarrow> ValidateOption option \<Rightarrow> jsstring option" where
  "isEmptyValidator v option =
     (let optionDefault = no_option\<lparr>opt_message := Some []\<rparr>;
          opt = (case option of Some ob \<Rightarrow> ob | None \<Rightarrow> optionDefault)
      in if isEmpty v then Some (or_default (opt_message opt) msg_isEmpty) else None)"

text \<open>The pattern of the email validator, group by group.\<close>

definition email_atom :: cclass where
  "email_atom = NotCharSet ([one 0x3C, one 0x3E, one 0x28, one 0x29, one 0x5B, one 0x5D,
     one 0x5C, one 0x2E, one 0x2C, one 0x3B, one 0x3A] @ white_space @ [one 0x40, one 0x22])"

definition email_reg :: rexp where
  "email_reg = seqs [Bol,
     Alt (Seq (plus1 (Chars email_atom))
              (star (Seq (chr 0x2E) (plus1 (Chars email_atom)))))
         (seqs [chr 0x22, plus1 dot, chr 0x22]),
     chr 0x40,
     Alt (seqs [chr 0x5B, Repeat 1 (Some 3) (Chars (CharSet digit)), chr 0x2E,
                Repeat 1 (Some 3) (Chars (CharSet digit)), chr 0x2E,
                Repeat 1 (Some 3) (Chars (CharSet digit)), chr 0x2E,
                Repeat 1 (Some 3) (Chars (CharSet digit)), chr 0x5D])
         (Seq (plus1 (Seq (plus1 (Chars (CharSet (letter @ [one 0x2D] @ digit)))) (chr 0x2E)))
              (Repeat 2 None (Chars (CharSet letter)))),
     Eol]"

definition emailValidator :: "jsval \<Rightarrow> ValidateOption option \<Rightarrow> jsstring option" where
  "emailValidator v option =
     (let optionDefault = no_option\<lparr>opt_message := Some []\<rparr>;
          opt = (case option of Some ob \<Rightarrow> ob | None \<Rightarrow> optionDefault);
          result = (\<not> regexp_test email_reg (to_String v))
      in if result then Some (or_default (opt_message opt) msg_email) else None)"

text \<open>
  \<open>new RegExp(`^(?=.*\\d)(?=.*[a-zA-Z]).{${min},${max}}$`)\<close>. When both bounds print
  as decimal numerals the braces are a quantifier, and the constructor throws a
  SyntaxError when the numbers are out of order; otherwise (a negative or infinite
  bound) the braces and what stands between them are literal characters.
\<close>

definition password_reg :: "jsnum \<Rightarrow> jsnum \<Rightarrow> exn + rexp" where
  "password_reg mn mx =
     (let has_digit = Lookahead (Seq (star dot) (Chars (CharSet digit)));
          has_letter = Lookahead (Seq (star dot) (Chars (CharSet letter)));
          literal = Inr (seqs [Bol, has_digit, has_letter, dot,
             lit (str ''{'' @ num_to_string mn @ str '','' @ num_to_string mx @ str ''}''), Eol])
      in case (mn, mx) of
           (Fin a, Fin b) \<Rightarrow>
             if 0 \<le> a \<and> 0 \<le> b then
               (if a \<le> b
                then Inr (seqs [Bol, has_digit, has_letter, Repeat (nat a) (Some (nat b)) dot, Eol])
                else Inl SyntaxError)
             else literal
         | _ \<Rightarrow> literal)"

definition passwordValidator :: "jsval \<Rightarrow> ValidateOption option \<Rightarrow> exn + jsstring option" where
  "passwordValidator v option =
     (let optionDefault = no_option\<lparr>opt_min := Some (Fin 6), opt_max := Some (Fin 30),
            opt_message := Some []\<rparr>;
          opt = (case option of Some ob \<Rightarrow> ob | None \<Rightarrow> optionDefault);
          mn = num_or_default (opt_min opt) (Fin 6);
          mx = num_or_default (opt_max opt) (Fin 30)
      in case password_reg mn mx of
           Inl e \<Rightarrow> Inl e
         | Inr reg \<Rightarrow>
             (let result = (\<not> regexp_test reg (to_String v))
              in if result
                 then Inr (Some (or_default (opt_message opt)
                        (msg_password_head @ num_to_string mn @ str ''~'' @ num_to_string mx
                           @ msg_password_tail)))
                 else Inr None))"

text \<open>\<open>opt.equal !== value\<close>: a missing \<open>equal\<close> is \<open>undefined\<close>.\<close>

definition equalValidator :: "jsval \<Rightarrow> ValidateOption option \<Rightarrow> jsstring option" where
  "equalValidator v option =
     (let optionDefault = no_option\<lparr>opt_equal := Some [], opt_message := Some []\<rparr>;
          opt = (case option of Some ob \<Rightarrow> ob | None \<Rightarrow> optionDefault);
          differs = (case opt_equal opt of Some s \<Rightarrow> v \<noteq> JStr s | None \<Rightarrow> v \<noteq> JUndefined)
      in if differs then Some (or_default (opt_message opt) msg_equal) else None)"

subsection \<open>The image validator\<close>

text \<open>
  The collaborators of the image validator live in the modules \<open>./image\<close> and
  \<open>./error\<close> and in the runtime; they are parameters of the model, with the contracts
  the specification gives them:
  \<open>blobToBase64\<close> and \<open>urlToImageElement\<close> (awaited one after the other),
  \<open>transformFileSize\<close>, and the compilation \<open>new RegExp(string)\<close> of a pattern that
  is only known at run time. \<open>handleWarningLog\<close> is modelled by the list of the
  warnings a call emits, in order. \<open>Function_new\<close> is the built-in \<open>Function\<close>
  called as \<open>Function(value, typeOption)\<close>, which the engine reaches through the
  prototype chain of its table: it returns a function (\<open>None\<close>) or throws.
\<close>

record image_element =
  naturalWidth :: nat
  naturalHeight :: nat

record env =
  blobToBase64 :: "blob \<Rightarrow> jsstring"
  urlToImageElement :: "jsstring \<Rightarrow> image_element"
  transformFileSize :: "jsnum \<Rightarrow> jsnum"
  RegExp_parse :: "jsstring \<Rightarrow> exn + rexp"
  Function_new :: "jsval \<Rightarrow> ValidateOption option \<Rightarrow> exn option"

definition js_engine :: "env \<Rightarrow> (rexp, unit) RegExp_engine" where
  "js_engine env = \<lparr>RegExp_new = (\<lambda>s st. (RegExp_parse env s, st)),
                    RegExp_test = (\<lambda>r s st. (regexp_test r s, st))\<rparr>"

fun split_at :: "cu \<Rightarrow> jsstring \<Rightarrow> jsstring list" where
  "split_at c [] = [[]]"
| "split_at c (x # xs) =
     (if x = c then [] # split_at c xs
      else (case split_at c xs of [] \<Rightarrow> [[x]] | y # ys \<Rightarrow> (x # y) # ys))"

text \<open>\<open>toLocaleLowerCase\<close>, on the ASCII letters.\<close>

definition toLowerCase :: "jsstring \<Rightarrow> jsstring" where
  "toLowerCase s = map (\<lambda>c. if 0x41 \<le> c \<and> c \<le> 0x5A then c + 0x20 else c) s"

definition image_optionDefault :: ValidateOption where
  "image_optionDefault = no_option\<lparr>
     opt_messageOption := Some \<lparr>for_minWidth = Some msg_minWidth, for_maxWidth = Some msg_maxWidth,
       for_minHeight = Some msg_minHeight, for_maxHeight = Some msg_maxHeight,
       for_size = Some msg_size, for_type = Some msg_type, for_name = None\<rparr>,
     opt_message := Some [],
     opt_minWidth := Some (Fin 0), opt_maxWidth := Some (Fin 0),
     opt_minHeight := Some (Fin 0), opt_maxHeight := Some (Fin 0),
     opt_size := Some (Fin 0), opt_type := Some (str ''image'')\<rparr>"

text \<open>\<open>opt.messageOption?.k || d\<close>.\<close>

definition message_for ::
  "ValidateOption \<Rightarrow> (MessageOption \<Rightarrow> jsstring option) \<Rightarrow> jsstring \<Rightarrow> jsstring" where
  "message_for opt k d =
     or_default (case opt_messageOption opt of Some mo \<Rightarrow> k mo | None \<Rightarrow> None) d"

text \<open>\<open>opt.b && opt.b < n\<close> and \<open>opt.b && opt.b > n\<close>.\<close>

definition bound_lt :: "jsnum option \<Rightarrow> nat \<Rightarrow> bool" where
  "bound_lt m n = (case m of Some b \<Rightarrow> num_truthy b \<and> num_lt b (Fin (int n)) | None \<Rightarrow> False)"

definition bound_gt :: "jsnum option \<Rightarrow> nat \<Rightarrow> bool" where
  "bound_gt m n = (case m of Some b \<Rightarrow> num_truthy b \<and> num_gt b (Fin (int n)) | None \<Rightarrow> False)"

text \<open>The block of the four dimension checks (lines 102 to 117 of the source).\<close>

definition dimension_errors :: "env \<Rightarrow> blob \<Rightarrow> ValidateOption \<Rightarrow> jsstring list" where
  "dimension_errors env b opt =
     (if is_set (opt_minWidth opt) \<or> is_set (opt_maxWidth opt)
         \<or> is_set (opt_minHeight opt) \<or> is_set (opt_maxHeight opt)
      then
        (let base64Url = blobToBase64 env b;
             img = urlToImageElement env base64Url
         in (if bound_lt (opt_minWidth opt) (naturalWidth img)
             then [message_for opt for_minWidth msg_maxWidth] else [])
          @ (if bound_gt (opt_maxWidth opt) (naturalWidth img)
             then [message_for opt for_maxWidth msg_minWidth] else [])
          @ (if bound_lt (opt_minHeight opt) (naturalHeight img)
             then [message_for opt for_minHeight msg_minHeight] else [])
          @ (if bound_gt (opt_maxHeight opt) (naturalHeight img)
             then [message_for opt for_maxHeight msg_maxHeight] else []))
      else [])"

text \<open>The size check (lines 118 to 127): the errors it pushes and the warnings it emits.\<close>

definition size_errors :: "env \<Rightarrow> blob \<Rightarrow> ValidateOption \<Rightarrow> jsstring list \<times> jsstring list" where
  "size_errors env b opt =
     (case opt_size opt of
        None \<Rightarrow> ([], [])
      | Some sz \<Rightarrow>
          if num_truthy sz then
            (let sizeNumber = transformFileSize env sz
             in if sizeNumber = NaN
                then ([], [str ''utils[function validImage]: The option property size is not valid variable.''])
                else if num_gt (Fin (int (blob_size b))) sizeNumber
                then ([message_for opt for_size msg_size], [])
                else ([], []))
          else ([], []))"

text \<open>The type check (lines 128 to 135); compiling an allowed type may throw.\<close>

definition type_errors :: "env \<Rightarrow> blob \<Rightarrow> ValidateOption \<Rightarrow> exn + jsstring list" where
  "type_errors env b opt =
     (case opt_type opt of
        None \<Rightarrow> Inr []
      | Some t \<Rightarrow>
          if t \<noteq> [] then
            (let allowedTypes = split_at 0x2C t;
                 types = map toLowerCase allowedTypes
             in case fst (isTextIncludes (js_engine env) (map PString types)
                            (toLowerCase (blob_type b)) ()) of
                  Inl e \<Rightarrow> Inl e
                | Inr isAllowed \<Rightarrow>
                    if \<not> isAllowed then Inr [message_for opt for_type msg_type] else Inr [])
          else Inr [])"

text \<open>
  The result is the outcome (a thrown error, or \<open>string[] | null\<close>) and the warnings
  emitted.
\<close>

definition imageValidator ::
  "env \<Rightarrow> jsval \<Rightarrow> ValidateOption option \<Rightarrow> (exn + jsstring list option) \<times> jsstring list" where
  "imageValidator env v option =
     (let opt = (case option of Some ob \<Rightarrow> ob | None \<Rightarrow> image_optionDefault)
      in case v of
           JBlob b \<Rightarrow>
             (let errors1 = dimension_errors env b opt;
                  (errors2, warnings) = size_errors env b opt
              in case type_errors env b opt of
                   Inl e \<Rightarrow> (Inl e, warnings)
                 | Inr errors3 \<Rightarrow>
                     (let errors = errors1 @ errors2 @ errors3
                      in (Inr (if errors \<noteq> [] then Some errors else None), warnings)))
         | _ \<Rightarrow> (Inr None, [str ''utils[function validImage]: The value is not Blob object.'']))"

section \<open>The validation engine\<close>

text \<open>
  What a validator returns, \<open>string | string[] | null\<close>, and a validator of the table:
  it may throw, and it may emit warnings. An asynchronous validator is awaited at once
  by its only caller, so its promise is modelled by its outcome.
\<close>

datatype string_result = RNull | RString jsstring | RArray "jsstring list"

type_synonym ValidatorHandler =
  "jsval \<Rightarrow> ValidateOption option \<Rightarrow> (exn + string_result) \<times> jsstring list"

definition of_string :: "jsstring option \<Rightarrow> string_result" where
  "of_string r = (case r of Some s \<Rightarrow> RString s | None \<Rightarrow> RNull)"

definition of_array :: "jsstring list option \<Rightarrow> string_result" where
  "of_array r = (case r of Some xs \<Rightarrow> RArray xs | None \<Rightarrow> RNull)"

text \<open>The module-level table \<open>validatorHandler\<close> with its five entries.\<close>

definition builtin_handlers :: "env \<Rightarrow> (jsstring \<times> ValidatorHandler) list" where
  "builtin_handlers env =
     [(str ''isEmpty'', \<lambda>v ob. (Inr (of_string (isEmptyValidator v ob)), [])),
      (str ''email'', \<lambda>v ob. (Inr (of_string (emailValidator v ob)), [])),
      (str ''password'', \<lambda>v ob. (map_sum id of_string (passwordValidator v ob), [])),
      (str ''equal'', \<lambda>v ob. (Inr (of_string (equalValidator v ob)), [])),
      (str ''image'', \<lambda>v ob. (case imageValidator env v ob of
                                  (r, w) \<Rightarrow> (map_sum id of_array r, w)))]"

subsection \<open>The table object and its prototype\<close>

text \<open>
  The table is an ordinary object: \<open>this.validatorHandler[type]\<close> finds the own
  property of that name or else the member the object inherits. The table starts with
  the prototype \<open>Object.prototype\<close>; the assignment \<open>table["__proto__"] = f\<close> runs the
  inherited setter, which makes the function \<open>f\<close> the prototype and creates no own
  property. \<open>prototype\<close> is \<open>None\<close> for \<open>Object.prototype\<close> and \<open>Some f\<close> for a
  function \<open>f\<close> (with \<open>Function.prototype\<close> and \<open>Object.prototype\<close> behind it; a
  validator function has no own properties besides \<open>length\<close>, \<open>name\<close> and
  \<open>prototype\<close>).
\<close>

record table =
  own_handlers :: "jsstring \<Rightarrow> ValidatorHandler option"
  prototype :: "ValidatorHandler option"

text \<open>
  What \<open>handler(value, typeOption)\<close> calls, by what the name resolves to: a validator
  function; the built-in \<open>Object\<close> or \<open>Function\<close> (the inherited \<open>constructor\<close>);
  or something whose call throws a TypeError, because the name is nowhere on the
  prototype chain, or what is found is not a function, or it is a built-in method
  that needs its receiver (the call passes \<open>undefined\<close> as \<open>this\<close>).
\<close>

datatype member =
    Handler ValidatorHandler
  | Builtin_Object
  | Builtin_Function
  | Call_throws_TypeError

definition is_object :: "jsval \<Rightarrow> bool" where
  "is_object v =
     (case v of JArr xs \<Rightarrow> True | JObj ps \<Rightarrow> True | JInst ps \<Rightarrow> True | JBlob b \<Rightarrow> True
      | JFun src r \<Rightarrow> True | JWrapper x \<Rightarrow> True | _ \<Rightarrow> False)"

text \<open>
  \<open>Object.prototype.toString\<close> called with \<open>this\<close> undefined returns
  \<open>"[object Undefined]"\<close>. \<open>Object.prototype.isPrototypeOf\<close> returns \<open>false\<close> for an
  argument that is not an object, before it looks at \<open>this\<close>, and throws a TypeError
  otherwise; the falsy result \<open>false\<close> is written \<open>RNull\<close>.
\<close>

definition toString_call :: ValidatorHandler where
  "toString_call v p = (Inr (RString (str ''[object Undefined]'')), [])"

definition isPrototypeOf_call :: ValidatorHandler where
  "isPrototypeOf_call v p = (if is_object v then (Inl TypeError, []) else (Inr RNull, []))"

text \<open>
  The members a name inherits. Behind \<open>Object.prototype\<close>: \<open>toString\<close>,
  \<open>isPrototypeOf\<close> and \<open>constructor\<close> (the function \<open>Object\<close>) can be called without
  a receiver; \<open>hasOwnProperty\<close>, \<open>propertyIsEnumerable\<close>, \<open>valueOf\<close>,
  \<open>toLocaleString\<close> and the four \<open>__defineGetter__\<close>, \<open>__defineSetter__\<close>,
  \<open>__lookupGetter__\<close>, \<open>__lookupSetter__\<close> throw a TypeError. Behind a function:
  \<open>constructor\<close> is \<open>Function\<close>, \<open>toString\<close> is that of \<open>Function.prototype\<close> and
  throws a TypeError without a function as receiver, as do \<open>call\<close>, \<open>apply\<close> and
  \<open>bind\<close>; \<open>length\<close>, \<open>name\<close>, \<open>prototype\<close>, \<open>arguments\<close> and \<open>caller\<close> are not
  functions.
\<close>

definition inherited_member :: "ValidatorHandler option \<Rightarrow> jsstring \<Rightarrow> member" where
  "inherited_member proto n =
     (if n = str ''isPrototypeOf'' then Handler isPrototypeOf_call
      else if n = str ''constructor''
        then (case proto of None \<Rightarrow> Builtin_Object | Some f \<Rightarrow> Builtin_Function)
      else if n = str ''toString''
        then (case proto of None \<Rightarrow> Handler toString_call | Some f \<Rightarrow> Call_throws_TypeError)
      else Call_throws_TypeError)"

text \<open>
  \<open>table[n]\<close>, as what a call of it does. The name \<open>__proto__\<close> is the inherited
  accessor: it yields the prototype, which is a function only after it has been
  assigned one.
\<close>

definition table_member :: "table \<Rightarrow> jsstring \<Rightarrow> member" where
  "table_member t n =
     (if n = str ''__proto__''
      then (case prototype t of None \<Rightarrow> Call_throws_TypeError | Some f \<Rightarrow> Handler f)
      else case own_handlers t n of
             Some f \<Rightarrow> Handler f
           | None \<Rightarrow> inherited_member (prototype t) n)"


subsection \<open>The store\<close>

text \<open>
  The objects the engine creates and mutates live in a store, one address space for the
  three kinds: validator tables (\<open>ValidatorHandlerList\<close>), error mappings
  (\<open>ErrorMessages\<close>: each field holds \<open>null\<close> or a reference to an array, in
  enumeration order) and arrays of strings. \<open>next_ref\<close> is the next fresh address.
  \<open>Function_constructor\<close> is the built-in \<open>Function\<close> of the realm, called as
  \<open>Function(value, typeOption)\<close>: whether it compiles its arguments into a function
  (\<open>None\<close>) or throws is only known at run time.
\<close>

type_synonym ref = nat

record heap =
  handler_lists :: "ref \<Rightarrow> table option"
  error_messages :: "ref \<Rightarrow> (jsstring \<times> ref option) list option"
  string_arrays :: "ref \<Rightarrow> jsstring list option"
  next_ref :: ref
  Function_constructor :: "jsval \<Rightarrow> ValidateOption option \<Rightarrow> exn option"

definition get_table :: "heap \<Rightarrow> ref \<Rightarrow> table" where
  "get_table h r =
     (case handler_lists h r of Some t \<Rightarrow> t
      | None \<Rightarrow> \<lparr>own_handlers = Map.empty, prototype = None\<rparr>)"

definition get_member :: "heap \<Rightarrow> ref \<Rightarrow> jsstring \<Rightarrow> member" where
  "get_member h r = table_member (get_table h r)"

definition get_errors :: "heap \<Rightarrow> ref \<Rightarrow> (jsstring \<times> ref option) list" where
  "get_errors h r = (case error_messages h r of Some es \<Rightarrow> es | None \<Rightarrow> [])"

definition get_array :: "heap \<Rightarrow> ref \<Rightarrow> jsstring list" where
  "get_array h r = (case string_arrays h r of Some xs \<Rightarrow> xs | None \<Rightarrow> [])"

definition alloc_array :: "jsstring list \<Rightarrow> heap \<Rightarrow> ref \<times> heap" where
  "alloc_array xs h =
     (next_ref h, h\<lparr>string_arrays := (string_arrays h)(next_ref h \<mapsto> xs),
                     next_ref := Suc (next_ref h)\<rparr>)"

definition alloc_errors :: "(jsstring \<times> ref option) list \<Rightarrow> heap \<Rightarrow> ref \<times> heap" where
  "alloc_errors es h =
     (next_ref h, h\<lparr>error_messages := (error_messages h)(next_ref h \<mapsto> es),
                     next_ref := Suc (next_ref h)\<rparr>)"

text \<open>
  Loading the module creates the one table object; \<open>module_validatorHandler\<close> is the
  module-level constant that refers to it.
\<close>

definition module_validatorHandler :: ref where
  "module_validatorHandler = 0"

definition module_init :: "env \<Rightarrow> heap" where
  "module_init env =
     \<lparr>handler_lists = [module_validatorHandler \<mapsto>
         \<lparr>own_handlers = map_of (builtin_handlers env), prototype = None\<rparr>],
      error_messages = Map.empty, string_arrays = Map.empty, next_ref = 1,
      Function_constructor = Function_new env\<rparr>"

text \<open>
  The rule sets: a field rule maps validator names to option payloads (a payload may
  be \<open>undefined\<close>), a rule set maps field names to field rules, both in enumeration
  order. Both are plain objects.
\<close>

type_synonym ValidateField = "(jsstring \<times> ValidateOption option) list"
type_synonym ValidatorValidOption = "(jsstring \<times> ValidateField) list"

text \<open>
  An instance: its four fields, all \<open>readonly\<close>. \<open>validatorHandler\<close> and \<open>errors\<close>
  hold references.
\<close>

record Validator =
  validatorHandler :: ref
  model :: jsval
  validateOption :: "ValidatorValidOption option"
  errors :: ref

text \<open>
  The constructor with the field initialisers: \<open>validatorHandler = validatorHandler\<close>
  copies the reference of the module-level table, \<open>errors = {}\<close> creates an object.
\<close>

definition new_Validator ::
  "jsval \<Rightarrow> ValidatorValidOption option \<Rightarrow> heap \<Rightarrow> Validator \<times> heap" where
  "new_Validator m option h =
     (case alloc_errors [] h of
        (e, h') \<Rightarrow>
          (\<lparr>validatorHandler = module_validatorHandler, model = m,
            validateOption = option, errors = e\<rparr>, h'))"


subsection \<open>validateField\<close>

text \<open>
  What \<open>if (errorMessages) { ... push ... }\<close> appends to the local array \<open>errors\<close>:
  nothing for a falsy value, the elements of an array, the value itself otherwise.
\<close>

definition pushed_value :: "jsval \<Rightarrow> jsval list" where
  "pushed_value x = (if truthy x then (case x of JArr xs \<Rightarrow> xs | _ \<Rightarrow> [x]) else [])"

fun result_value :: "string_result \<Rightarrow> jsval" where
  "result_value RNull = JNull"
| "result_value (RString s) = JStr s"
| "result_value (RArray xs) = JArr (map JStr xs)"

definition pushed :: "string_result \<Rightarrow> jsval list" where
  "pushed r = pushed_value (result_value r)"

text \<open>
  \<open>Object(v)\<close>: a new empty object for \<open>undefined\<close> and \<open>null\<close>, the wrapper object
  of any other primitive, and an object itself. The function that \<open>Function\<close>
  compiles prints as \<open>function anonymous(\<close> parameters, a line feed, \<open>) {\<close>, a line
  feed, the body, a line feed and \<open>}\<close>; the payload is the body, \<open>"undefined"\<close> where
  there is none.
\<close>

definition Object_call :: "jsval \<Rightarrow> jsval" where
  "Object_call v =
     (case v of
        JUndefined \<Rightarrow> JObj []
      | JNull \<Rightarrow> JObj []
      | JBool b \<Rightarrow> JWrapper v
      | JNum n \<Rightarrow> JWrapper v
      | JStr s \<Rightarrow> JWrapper v
      | _ \<Rightarrow> v)"

definition compiled_function :: "jsval \<Rightarrow> ValidateOption option \<Rightarrow> jsval" where
  "compiled_function v p =
     JFun (str ''function anonymous('' @ to_String v @ [0x0A] @ str '') {'' @ [0x0A]
             @ (case p of None \<Rightarrow> str ''undefined'' | Some ob \<Rightarrow> str ''[object Object]'')
             @ [0x0A] @ str ''}'')
          None"

text \<open>
  One round of the loop: the call \<open>handler(value, typeOption)\<close> and what it appends,
  or the error it throws, with the warnings.
\<close>

definition call_member ::
  "member \<Rightarrow> (jsval \<Rightarrow> ValidateOption option \<Rightarrow> exn option) \<Rightarrow> jsval \<Rightarrow> ValidateOption option
     \<Rightarrow> (exn + jsval list) \<times> jsstring list" where
  "call_member m fn v typeOption =
     (case m of
        Call_throws_TypeError \<Rightarrow> (Inl TypeError, [])
      | Handler handler \<Rightarrow>
          (case handler v typeOption of
             (Inl e, w) \<Rightarrow> (Inl e, w)
           | (Inr errorMessages, w) \<Rightarrow> (Inr (pushed errorMessages), w))
      | Builtin_Object \<Rightarrow> (Inr (pushed_value (Object_call v)), [])
      | Builtin_Function \<Rightarrow>
          (case fn v typeOption of
             Some e \<Rightarrow> (Inl e, [])
           | None \<Rightarrow> (Inr (pushed_value (compiled_function v typeOption)), [])))"

text \<open>
  The loop \<open>for (const type in options)\<close> over the names of the field rule; an error
  thrown in a round ends it.
\<close>

fun validateField_loop ::
  "(jsstring \<Rightarrow> member) \<Rightarrow> (jsval \<Rightarrow> ValidateOption option \<Rightarrow> exn option) \<Rightarrow> jsval
     \<Rightarrow> ValidateField \<Rightarrow> jsval list \<Rightarrow> (exn + jsval list) \<times> jsstring list" where
  "validateField_loop tbl fn v [] errs = (Inr errs, [])"
| "validateField_loop tbl fn v ((type, typeOption) # rest) errs =
     (case call_member (tbl type) fn v typeOption of
        (Inl e, w) \<Rightarrow> (Inl e, w)
      | (Inr new, w) \<Rightarrow>
          (case validateField_loop tbl fn v rest (errs @ new) of
             (r, w') \<Rightarrow> (r, w @ w')))"

text \<open>
  A call of the engine ends in one of three ways: it returns a value of its declared
  type, it throws (the promise rejects), or it returns a value that is not of its
  declared type. The last happens when a rule names the inherited \<open>constructor\<close>:
  the array returned then holds an object where the type \<open>string[]\<close> promises a
  string. The store of the model keeps arrays of strings only, so such an array is not
  followed further.
\<close>

datatype failure = Throws exn | Ill_typed

fun all_strings :: "jsval list \<Rightarrow> jsstring list option" where
  "all_strings [] = Some []"
| "all_strings (JStr s # xs) = map_option ((#) s) (all_strings xs)"
| "all_strings (x # xs) = None"

text \<open>
  A method of the engine returns its outcome, the warnings it emitted and the store.
  \<open>validateField\<close> returns \<open>null\<close> or a new array.
\<close>

definition validateField ::
  "Validator \<Rightarrow> jsval \<Rightarrow> ValidateField option \<Rightarrow> heap
     \<Rightarrow> (failure + ref option) \<times> jsstring list \<times> heap" where
  "validateField this v options h =
     (case (case options of
              Some opts \<Rightarrow>
                validateField_loop (get_member h (validatorHandler this))
                  (Function_constructor h) v opts []
            | None \<Rightarrow> (Inr [],
                [str ''utils[function validateField]: The options type is not a ValidateField.'']))
      of
        (Inl e, w) \<Rightarrow> (Inl (Throws e), w, h)
      | (Inr errs, w) \<Rightarrow>
          (let result = filter truthy errs
           in if result \<noteq> []
              then (case all_strings result of
                      None \<Rightarrow> (Inl Ill_typed, w, h)
                    | Some messages \<Rightarrow>
                        (case alloc_array messages h of (a, h') \<Rightarrow> (Inr (Some a), w, h')))
              else (Inr None, w, h)))"

subsection \<open>validate\<close>

text \<open>
  The own enumerable properties \<open>for (const key in this.model)\<close> visits and
  \<open>hasOwnProperty\<close> lets through, with their values: the properties of an object, the
  indices of an array and of a string.
\<close>

fun indexed :: "nat \<Rightarrow> 'a list \<Rightarrow> (jsstring \<times> 'a) list" where
  "indexed n [] = []"
| "indexed n (x # xs) = (digits n, x) # indexed (Suc n) xs"

fun own_properties :: "jsval \<Rightarrow> (jsstring \<times> jsval) list" where
  "own_properties (JObj ps) = ps"
| "own_properties (JInst ps) = ps"
| "own_properties (JArr xs) = indexed 0 xs"
| "own_properties (JStr s) = indexed 0 (map (\<lambda>c. JStr [c]) s)"
| "own_properties (JWrapper x) = own_properties x"
| "own_properties _ = []"

text \<open>
  \<open>o[key] = v\<close> on an object: a new key goes last. (The keys arrive in the
  enumeration order of the model, which has the integer-like keys first already.)
\<close>

fun set_property :: "'k \<Rightarrow> 'v \<Rightarrow> ('k \<times> 'v) list \<Rightarrow> ('k \<times> 'v) list" where
  "set_property k v [] = [(k, v)]"
| "set_property k v ((k', v') # ps) =
     (if k = k' then (k, v) # ps else (k', v') # set_property k v ps)"

text \<open>
  The rule set as the value \<open>isEmpty\<close> is called on: an object of objects of
  payloads, a payload with the properties it has.
\<close>

definition field_of :: "string \<Rightarrow> ('a \<Rightarrow> jsval) \<Rightarrow> 'a option \<Rightarrow> (jsstring \<times> jsval) list" where
  "field_of k f m = (case m of Some x \<Rightarrow> [(str k, f x)] | None \<Rightarrow> [])"

definition messageOption_value :: "MessageOption \<Rightarrow> jsval" where
  "messageOption_value mo =
     JObj (field_of ''minWidth'' JStr (for_minWidth mo) @ field_of ''maxWidth'' JStr (for_maxWidth mo)
         @ field_of ''minHeight'' JStr (for_minHeight mo) @ field_of ''maxHeight'' JStr (for_maxHeight mo)
         @ field_of ''size'' JStr (for_size mo) @ field_of ''type'' JStr (for_type mo)
         @ field_of ''name'' JStr (for_name mo))"

definition payload_value :: "ValidateOption option \<Rightarrow> jsval" where
  "payload_value p =
     (case p of
        None \<Rightarrow> JUndefined
      | Some ob \<Rightarrow>
          JObj (field_of ''message'' JStr (opt_message ob)
              @ field_of ''messageOption'' messageOption_value (opt_messageOption ob)
              @ field_of ''min'' JNum (opt_min ob) @ field_of ''max'' JNum (opt_max ob)
              @ field_of ''equal'' JStr (opt_equal ob) @ field_of ''size'' JNum (opt_size ob)
              @ field_of ''type'' JStr (opt_type ob) @ field_of ''name'' JStr (opt_name ob)
              @ field_of ''minWidth'' JNum (opt_minWidth ob) @ field_of ''maxWidth'' JNum (opt_maxWidth ob)
              @ field_of ''minHeight'' JNum (opt_minHeight ob)
              @ field_of ''maxHeight'' JNum (opt_maxHeight ob)))"

definition rules_value :: "ValidatorValidOption option \<Rightarrow> jsval" where
  "rules_value r =
     (case r of
        None \<Rightarrow> JUndefined
      | Some rules \<Rightarrow>
          JObj (map (\<lambda>(k, vf). (k, JObj (map (\<lambda>(n, p). (n, payload_value p)) vf))) rules))"

text \<open>
  \<open>opt[key]\<close> on the rule set: the own rule of the field, or else a member the rule
  set inherits from \<open>Object.prototype\<close>. Such a member is truthy and has no
  enumerable property, so \<open>validateField\<close> treats it as a field rule that names no
  validator.
\<close>

definition Object_prototype_names :: "jsstring list" where
  "Object_prototype_names =
     map str [''constructor'', ''__defineGetter__'', ''__defineSetter__'', ''hasOwnProperty'',
       ''__lookupGetter__'', ''__lookupSetter__'', ''isPrototypeOf'', ''propertyIsEnumerable'',
       ''toString'', ''valueOf'', ''__proto__'', ''toLocaleString'']"

definition rule_of :: "ValidatorValidOption \<Rightarrow> jsstring \<Rightarrow> ValidateField option" where
  "rule_of opt key =
     (case map_of opt key of
        Some fieldRules \<Rightarrow> Some fieldRules
      | None \<Rightarrow> if key \<in> set Object_prototype_names then Some [] else None)"

text \<open>
  \<open>errors[key] = r\<close> on the local object: a new key goes last; the key \<open>__proto__\<close>
  runs the inherited setter (the value is \<open>null\<close> or an array, which becomes the
  prototype) and creates no property.
\<close>

definition assign_error ::
  "jsstring \<Rightarrow> ref option \<Rightarrow> (jsstring \<times> ref option) list \<Rightarrow> (jsstring \<times> ref option) list" where
  "assign_error key r es = (if key = str ''__proto__'' then es else set_property key r es)"

text \<open>
  The loop over the fields of the model. \<open>errs\<close> is the reference of the local object
  \<open>errors\<close>; a field with a rule stores the result of \<open>validateField\<close> in it. After a
  result that is not of the declared type the loop goes on: the mapping it builds is
  then not of the declared type either, unless a later field throws.
\<close>

fun validate_loop ::
  "Validator \<Rightarrow> ValidatorValidOption \<Rightarrow> ref \<Rightarrow> (jsstring \<times> jsval) list \<Rightarrow> heap
     \<Rightarrow> (failure + unit) \<times> jsstring list \<times> heap" where
  "validate_loop this opt errs [] h = (Inr (), [], h)"
| "validate_loop this opt errs ((key, v) # rest) h =
     (case rule_of opt key of
        None \<Rightarrow> validate_loop this opt errs rest h
      | Some fieldRules \<Rightarrow>
          (case validateField this v (Some fieldRules) h of
             (Inl (Throws e), w, h') \<Rightarrow> (Inl (Throws e), w, h')
           | (Inl Ill_typed, w, h') \<Rightarrow>
               (case validate_loop this opt errs rest h' of
                  (Inl f, w', h'') \<Rightarrow> (Inl f, w @ w', h'')
                | (Inr u, w', h'') \<Rightarrow> (Inl Ill_typed, w @ w', h''))
           | (Inr r, w, h') \<Rightarrow>
               (case validate_loop this opt errs rest
                       (h'\<lparr>error_messages := (error_messages h')
                              (errs \<mapsto> assign_error key r (get_errors h' errs))\<rparr>) of
                  (r', w', h'') \<Rightarrow> (r', w @ w', h''))))"

definition validate ::
  "Validator \<Rightarrow> ValidatorValidOption option \<Rightarrow> heap \<Rightarrow> (failure + ref) \<times> jsstring list \<times> heap" where
  "validate this options h =
     (let w1 = (if isEmpty (model this)
                then [str ''utils[function validate]: The form property is all empty.''] else []);
          opt = (case options of Some ob \<Rightarrow> Some ob | None \<Rightarrow> validateOption this);
          w2 = (if isEmpty (rules_value opt)
                then [str ''utils[function validate]: The options property is all empty.''] else [])
      in case alloc_errors [] h of
           (errs, h1) \<Rightarrow>
             (case opt of
                None \<Rightarrow> (Inr errs, w1 @ w2, h1)
              | Some rules \<Rightarrow>
                  (case validate_loop this rules errs (own_properties (model this)) h1 of
                     (Inl e, w, h2) \<Rightarrow> (Inl e, w1 @ w2 @ w, h2)
                   | (Inr u, w, h2) \<Rightarrow> (Inr errs, w1 @ w2 @ w, h2))))"

subsection \<open>Reading the stored errors\<close>

text \<open>
  \<open>Object.values(this.errors).flat().filter(p => p).map(String)\<close>, step by step;
  \<open>None\<close> is an element \<open>null\<close>.
\<close>

definition errorsToArray :: "Validator \<Rightarrow> heap \<Rightarrow> jsstring list" where
  "errorsToArray this h =
     (let vals = map snd (get_errors h (errors this));
          flat = concat (map (\<lambda>e. case e of None \<Rightarrow> [None]
                                    | Some a \<Rightarrow> map Some (get_array h a)) vals);
          kept = filter (\<lambda>p. case p of None \<Rightarrow> False | Some s \<Rightarrow> s \<noteq> []) flat
      in map (\<lambda>p. case p of None \<Rightarrow> str ''null'' | Some s \<Rightarrow> s) kept)"

text \<open>
  \<open>JSON.parse(JSON.stringify(this.errors))\<close>. \<open>errors_value\<close> is the stored mapping
  as the value \<open>JSON.stringify\<close> reads: an object whose properties hold \<open>null\<close> or
  an array of strings. \<open>JSON.stringify\<close> of \<open>undefined\<close> is \<open>undefined\<close>, which
  \<open>JSON.parse\<close> rejects with a SyntaxError. What \<open>JSON.parse\<close> returns is made of new
  objects: \<open>new_errors\<close> puts the parsed value into the store as an error mapping, a
  new array for each property that holds an array, and then the new mapping; the
  declared type of the result knows no other property values than arrays of strings
  and \<open>null\<close>.
\<close>

definition errors_value :: "heap \<Rightarrow> ref \<Rightarrow> jsval" where
  "errors_value h r =
     JObj (map (\<lambda>(k, e). (k, case e of None \<Rightarrow> JNull
                                 | Some a \<Rightarrow> JArr (map JStr (get_array h a))))
              (get_errors h r))"

fun strings_of :: "jsval list \<Rightarrow> jsstring list" where
  "strings_of [] = []"
| "strings_of (JStr s # xs) = s # strings_of xs"
| "strings_of (x # xs) = strings_of xs"

fun new_entries :: "(jsstring \<times> jsval) list \<Rightarrow> heap \<Rightarrow> (jsstring \<times> ref option) list \<times> heap" where
  "new_entries [] h = ([], h)"
| "new_entries ((k, JArr xs) # ps) h =
     (case alloc_array (strings_of xs) h of
        (a, h1) \<Rightarrow> (case new_entries ps h1 of (es, h2) \<Rightarrow> ((k, Some a) # es, h2)))"
| "new_entries ((k, x) # ps) h =
     (case new_entries ps h of (es, h') \<Rightarrow> ((k, None) # es, h'))"

definition new_errors :: "jsval \<Rightarrow> heap \<Rightarrow> ref \<times> heap" where
  "new_errors v h =
     (case new_entries (case v of JObj ps \<Rightarrow> ps | _ \<Rightarrow> []) h of
        (es, h') \<Rightarrow> alloc_errors es h')"

definition getErrors :: "Validator \<Rightarrow> heap \<Rightarrow> exn + ref \<times> heap" where
  "getErrors this h =
     (case JSON_stringify (errors_value h (errors this)) of
        None \<Rightarrow> Inl SyntaxError
      | Some j \<Rightarrow> Inr (new_errors (JSON_parse j) h))"

text \<open>
  \<open>isValid(field)\<close>; \<open>None\<close> is a call without the argument. \<open>if (field)\<close> is the
  truthiness of a string.
\<close>

definition isValid :: "Validator \<Rightarrow> jsstring option \<Rightarrow> heap \<Rightarrow> bool" where
  "isValid this field h =
     (case field of
        Some f \<Rightarrow>
          if f \<noteq> [] then
            (case map_of (get_errors h (errors this)) f of
               Some (Some a) \<Rightarrow> get_array h a \<noteq> []
             | _ \<Rightarrow> False)
          else errorsToArray this h \<noteq> []
      | None \<Rightarrow> errorsToArray this h \<noteq> [])"

text \<open>The content of an error mapping, as a value: each field with \<open>null\<close> or its messages.\<close>

definition errors_content :: "heap \<Rightarrow> ref \<Rightarrow> (jsstring \<times> jsstring list option) list" where
  "errors_content h r = map (\<lambda>(k, e). (k, map_option (get_array h) e)) (get_errors h r)"

text \<open>
  An environment for the examples: every blob decodes to an image of the given width
  and height, a size is given in bytes, a pattern string is compiled as a literal, and
  the host refuses to compile a function from a string (as under a content security
  policy without \<open>unsafe-eval\<close>).
\<close>

definition sample_env :: "nat \<Rightarrow> nat \<Rightarrow> env" where
  "sample_env w ht =
     \<lparr>blobToBase64 = (\<lambda>b. str ''data:image/png;base64,''),
      urlToImageElement = (\<lambda>u. \<lparr>naturalWidth = w, naturalHeight = ht\<rparr>),
      transformFileSize = (\<lambda>n. n),
      RegExp_parse = (\<lambda>s. Inr (lit s)),
      Function_new = (\<lambda>v p. Some EvalError)\<rparr>"


text \<open>
  A store for the examples, with the field \<open>errors\<close> of an instance filled in (it is
  public): the field with the empty name holds \<open>null\<close>, the field \<open>email\<close> one message.
\<close>

definition stored_heap :: heap where
  "stored_heap =
     \<lparr>handler_lists = Map.empty,
      error_messages = [1 \<mapsto> [([], None), (str ''email'', Some 2)]],
      string_arrays = [2 \<mapsto> [msg_email]],
      next_ref = 3,
      Function_constructor = (\<lambda>v p. Some EvalError)\<rparr>"

definition stored_validator :: Validator where
  "stored_validator =
     \<lparr>validatorHandler = module_validatorHandler,
      model = JObj [([], JStr (str ''abc123'')), (str ''email'', JStr (str ''bad''))],
      validateOption = None, errors = 1\<rparr>"








text \<open>The rule set a call of \<open>validate\<close> works with: \<open>options || this.validateOption\<close>.\<close>

definition rules_in_force ::
  "Validator \<Rightarrow> ValidatorValidOption option \<Rightarrow> ValidatorValidOption option" where
  "rules_in_force this options =
     (case options of Some ob \<Rightarrow> Some ob | None \<Rightarrow> validateOption this)"

text \<open>The instance of the round trip example of the specification.\<close>

definition with_rules :: "Validator \<times> heap" where
  "with_rules =
     new_Validator (JObj [(str ''email'', JStr (str ''bad'')), (str ''pass'', JStr (str ''abc123''))])
       (Some [(str ''email'', [(str ''email'', Some no_option)]),
              (str ''pass'', [(str ''password'', Some no_option)])])
       (module_init (sample_env 0 0))"

text \<open>
  An instance whose model has fields named like members of \<open>Object.prototype\<close>:
  \<open>toString\<close>, and an own property \<open>__proto__\<close> (as \<open>JSON.parse\<close> creates one).
\<close>

definition named_like_members :: "Validator \<times> heap" where
  "named_like_members =
     new_Validator (JObj [(str ''toString'', JStr (str ''x'')), (str ''__proto__'', JStr (str ''y''))])
       None (module_init (sample_env 0 0))"

text \<open>
  The store around an error mapping: the mapping and the arrays it refers to are
  allocated (every address in use lies below \<open>next_ref\<close>); two stores hold the same
  mappings and arrays below an address; the arrays of a list of entries lie at or above
  an address; and the content of a list of entries.
\<close>

definition allocated_entries :: "heap \<Rightarrow> (jsstring \<times> ref option) list \<Rightarrow> bool" where
  "allocated_entries h es =
     list_all (\<lambda>(k, e). case e of None \<Rightarrow> True | Some a \<Rightarrow> a < next_ref h) es"

definition allocated_errors :: "heap \<Rightarrow> ref \<Rightarrow> bool" where
  "allocated_errors h r = (r < next_ref h \<and> allocated_entries h (get_errors h r))"

definition same_below :: "ref \<Rightarrow> heap \<Rightarrow> heap \<Rightarrow> bool" where
  "same_below n h h' =
     (\<forall>a < n. error_messages h' a = error_messages h a \<and> string_arrays h' a = string_arrays h a)"

definition fresh_entries :: "ref \<Rightarrow> (jsstring \<times> ref option) list \<Rightarrow> bool" where
  "fresh_entries n es = list_all (\<lambda>(k, e). case e of None \<Rightarrow> True | Some a \<Rightarrow> n \<le> a) es"

definition entries_content :: "heap \<Rightarrow> (jsstring \<times> ref option) list \<Rightarrow> (jsstring \<times> jsstring list option) list" where
  "entries_content h es = map (\<lambda>(k, e). (k, map_option (get_array h) e)) es"

text \<open>A matcher moves forward and stays inside a string of length \<open>n\<close>.\<close>

definition forward :: "nat \<Rightarrow> (nat \<Rightarrow> nat list) \<Rightarrow> bool" where
  "forward n m = (\<forall>i \<le> n. \<forall>j \<in> set (m i). i \<le> j \<and> j \<le> n)"

text \<open>The content of a list of parsed properties, read as entries of an error mapping.\<close>

definition value_content :: "(jsstring \<times> jsval) list \<Rightarrow> (jsstring \<times> jsstring list option) list" where
  "value_content ps =
     map (\<lambda>(k, x). (k, case x of JArr xs \<Rightarrow> Some (strings_of xs) | _ \<Rightarrow> None)) ps"

section \<open>Properties\<close>

subsection \<open>The bound on the rounds of a repetition\<close>

text \<open>
  Every matcher moves forward and stays inside the string, so the rounds a repetition
  is given are never used up: giving it more changes nothing.
\<close>

lemma forwardD: "forward n m \<Longrightarrow> i \<le> n \<Longrightarrow> x \<in> set (m i) \<Longrightarrow> i \<le> x \<and> x \<le> n"
  unfolding forward_def by blast

lemma repeat_forward:
  "forward n m \<Longrightarrow> i \<le> n \<Longrightarrow> j \<in> set (repeat_from m k lo hi i) \<Longrightarrow> i \<le> j \<and> j \<le> n"
proof (induction k arbitrary: lo hi i j)
  case 0
  then show ?case by (simp split: if_splits)
next
  case (Suc k)
  have each: "i \<le> j \<and> j \<le> n"
    if "\<And>x. x \<in> set js \<Longrightarrow> i \<le> x \<and> x \<le> n" and "j \<in> set (repeat_each m k lo hi i js)"
    for js
    using that
  proof (induction js)
    case Nil
    then show ?case by simp
  next
    case (Cons x js)
    have x: "i \<le> x \<and> x \<le> n" by (rule Cons.prems(1)) simp
    from Cons.prems(2) consider
        "j \<in> set (repeat_from m k (lo - 1) (map_option (\<lambda>h. h - 1) hi) x)"
      | "j \<in> set (repeat_each m k lo hi i js)"
      by (auto split: if_splits)
    then show ?case
    proof cases
      case 1
      from Suc.IH [OF Suc.prems(1) _ 1] x show ?thesis by simp
    next
      case 2
      show ?thesis
        by (rule Cons.IH [OF _ 2]) (rule Cons.prems(1), simp)
    qed
  qed
  from Suc.prems(3) consider "j = i" | "j \<in> set (repeat_each m k lo hi i (m i))"
    by (auto split: if_splits)
  then show ?case
  proof cases
    case 1
    with Suc.prems(2) show ?thesis by simp
  next
    case 2
    show ?thesis
      by (rule each [OF _ 2]) (rule forwardD [OF Suc.prems(1,2)])
  qed
qed

lemma rmatch_forward: "forward (length s) (rmatch r s)"
proof (induction r)
  case (Repeat lo hi r)
  show ?case
    unfolding forward_def
  proof (intro allI impI ballI)
    fix i j assume "i \<le> length s" "j \<in> set (rmatch (Repeat lo hi r) s i)"
    then show "i \<le> j \<and> j \<le> length s"
      using repeat_forward [OF Repeat.IH, of i j "Suc (lo + length s)" lo hi] by simp
  qed
next
  case (Seq a b)
  show ?case
    unfolding forward_def
  proof (intro allI impI ballI)
    fix i j assume i: "i \<le> length s" and "j \<in> set (rmatch (Seq a b) s i)"
    then obtain x where x: "x \<in> set (rmatch a s i)" and j: "j \<in> set (rmatch b s x)"
      by auto
    from forwardD [OF Seq.IH(1) i x] have "i \<le> x" "x \<le> length s" by simp_all
    with forwardD [OF Seq.IH(2) _ j] show "i \<le> j \<and> j \<le> length s" by simp
  qed
next
  case (Alt a b)
  show ?case
    unfolding forward_def
  proof (intro allI impI ballI)
    fix i j assume i: "i \<le> length s" and "j \<in> set (rmatch (Alt a b) s i)"
    then consider "j \<in> set (rmatch a s i)" | "j \<in> set (rmatch b s i)" by auto
    then show "i \<le> j \<and> j \<le> length s"
      using forwardD [OF Alt.IH(1) i] forwardD [OF Alt.IH(2) i] by cases simp_all
  qed
next
  case Empty
  show ?case by (simp add: forward_def)
next
  case (Chars c)
  show ?case by (simp add: forward_def)
next
  case (Lookahead a)
  show ?case by (simp add: forward_def)
next
  case Bol
  show ?case by (simp add: forward_def)
next
  case Eol
  show ?case by (simp add: forward_def)
qed

lemma repeat_fuel_step:
  "forward n m \<Longrightarrow> i \<le> n \<Longrightarrow> lo + (n - i) < k \<Longrightarrow>
     repeat_from m (Suc k) lo hi i = repeat_from m k lo hi i"
proof (induction k arbitrary: lo hi i)
  case 0
  then show ?case by simp
next
  case (Suc k)
  have b: "\<forall>x \<in> set (m i). i \<le> x \<and> x \<le> n"
    using forwardD [OF Suc.prems(1,2)] by blast
  have each: "repeat_each m (Suc k) lo hi i js = repeat_each m k lo hi i js"
    if "\<forall>x \<in> set js. i \<le> x \<and> x \<le> n" for js
    using that
  proof (induction js)
    case Nil
    then show ?case by simp
  next
    case (Cons x js)
    then have x: "i \<le> x" "x \<le> n" by simp_all
    have "repeat_from m (Suc k) (lo - 1) (map_option (\<lambda>h. h - 1) hi) x
        = repeat_from m k (lo - 1) (map_option (\<lambda>h. h - 1) hi) x"
      if "\<not> (lo = 0 \<and> x = i)"
    proof (rule Suc.IH [OF Suc.prems(1) x(2)])
      from that x Suc.prems(3) show "lo - 1 + (n - x) < k" by (cases "lo = 0") auto
    qed
    with Cons show ?case by simp
  qed
  from each [OF b] show ?case by simp
qed

lemma repeat_fuel:
  "forward n m \<Longrightarrow> i \<le> n \<Longrightarrow> lo + (n - i) < k \<Longrightarrow>
     repeat_from m (k + d) lo hi i = repeat_from m k lo hi i"
proof (induction d)
  case 0
  then show ?case by simp
next
  case (Suc d)
  from Suc.prems have "repeat_from m (Suc (k + d)) lo hi i = repeat_from m (k + d) lo hi i"
    by (intro repeat_fuel_step) auto
  with Suc show ?case by simp
qed

lemma rmatch_Repeat_fuel:
  "i \<le> length s \<Longrightarrow>
     repeat_from (rmatch a s) (Suc (lo + length s) + d) lo hi i = rmatch (Repeat lo hi a) s i"
  using repeat_fuel [OF rmatch_forward, of i s lo "Suc (lo + length s)" a d hi] by simp


subsection \<open>The password bounds\<close>

lemma passwordValidator_default_example:
  "passwordValidator (JStr (str ''ab1'')) None
     = Inr (Some (msg_password_head @ str ''6~30'' @ msg_password_tail))"
  by code_simp

text \<open>
  C10: a bound of 0 passed to the password validator is replaced by the default, since
  the bounds are merged with \<open>||\<close>. The options \<open>{min: 0}\<close> and \<open>{max: 0}\<close> give
  the result of the call without options (bounds 6 and 30, default message), and in
  any option object a \<open>min\<close> of 0 acts as 6 and a \<open>max\<close> of 0 acts as 30.
\<close>

theorem passwordValidator_zero_bound:
  "passwordValidator v (Some (no_option\<lparr>opt_min := Some (Fin 0)\<rparr>)) = passwordValidator v None
   \<and> passwordValidator v (Some (no_option\<lparr>opt_max := Some (Fin 0)\<rparr>)) = passwordValidator v None
   \<and> passwordValidator v (Some (ob\<lparr>opt_min := Some (Fin 0)\<rparr>))
       = passwordValidator v (Some (ob\<lparr>opt_min := Some (Fin 6)\<rparr>))
   \<and> passwordValidator v (Some (ob\<lparr>opt_max := Some (Fin 0)\<rparr>))
       = passwordValidator v (Some (ob\<lparr>opt_max := Some (Fin 30)\<rparr>))"
  by (simp add: passwordValidator_def num_or_default_def no_option_def or_default_def Let_def
        split: sum.splits)

text \<open>
  The three code units \<open>ab1\<close> hold a letter and a digit and would pass a minimum of 0;
  with \<open>{min: 0}\<close> they are rejected with the message of the bounds 6 and 30.
\<close>

theorem passwordValidator_zero_bound_witness:
  "passwordValidator (JStr (str ''ab1'')) (Some (no_option\<lparr>opt_min := Some (Fin 0)\<rparr>))
     = Inr (Some (msg_password_head @ str ''6~30'' @ msg_password_tail))"
  using passwordValidator_zero_bound [of "JStr (str ''ab1'')" no_option]
    passwordValidator_default_example
  by simp

subsection \<open>The image validator on a value that is not a Blob\<close>

text \<open>
  C9: for a value that is not a Blob the image validator returns \<open>null\<close> without
  throwing and emits exactly one warning; the outcome does not depend on the options
  or on the collaborators, so none of the dimension, size and type checks takes part.
\<close>

theorem imageValidator_not_blob:
  "(\<forall>b. v \<noteq> JBlob b) \<Longrightarrow>
     imageValidator env v option
       = (Inr None, [str ''utils[function validImage]: The value is not Blob object.''])"
  by (cases v) (simp_all add: imageValidator_def)

theorem imageValidator_not_blob_witness:
  "\<forall>env option.
     imageValidator env (JStr (str ''photo.png'')) option
       = (Inr None, [str ''utils[function validImage]: The value is not Blob object.''])
     \<and> length (snd (imageValidator env (JStr (str ''photo.png'')) option)) = 1"
  using imageValidator_not_blob [of "JStr (str ''photo.png'')"] by simp

subsection \<open>Inclusion and exclusion of a text\<close>

lemma isTextIncludes_example:
  "isTextIncludes (js_engine (sample_env 0 0))
      [PString (str ''image''), PRegExp (lit (str ''png''))] (str ''application/pdf'') ()
     = (Inr False, ())"
  by code_simp

text \<open>
  C7: from the same state of the regular expression objects, \<open>isTextExcludes\<close> returns
  the negation of what \<open>isTextIncludes\<close> returns and leaves the same state; where a
  pattern does not compile, both throw the same error.
\<close>

theorem isTextExcludes_complement:
  "isTextExcludes eng data tx st
     = (map_sum id Not (fst (isTextIncludes eng data tx st)),
        snd (isTextIncludes eng data tx st))"
  by (induction eng data tx st rule: isTextIncludes.induct)
     (auto split: prod.splits sum.splits bool.splits)

theorem isTextExcludes_complement_witness:
  "isTextExcludes (js_engine (sample_env 0 0))
      [PString (str ''image''), PRegExp (lit (str ''png''))] (str ''application/pdf'') ()
     = (Inr True, ())"
  using isTextExcludes_complement [of "js_engine (sample_env 0 0)"
      "[PString (str ''image''), PRegExp (lit (str ''png''))]" "str ''application/pdf''" "()"]
    isTextIncludes_example
  by simp

subsection \<open>Emptiness\<close>




lemma toJSON_of_None_iff:
  "toJSON_of ps = None \<longleftrightarrow> (\<forall>src r. map_of ps (str ''toJSON'') \<noteq> Some (JFun src r))"
  by (auto simp: toJSON_of_def split: option.splits jsval.splits)

lemma JSON_elements_empty: "JSON_elements xs = [] \<longleftrightarrow> xs = []"
  by (cases xs) simp_all

lemma isArrayEmpty_iff: "isArrayEmpty (JArr xs) \<longleftrightarrow> (\<forall>x \<in> set xs. \<not> truthy x)"
  by (simp add: isArrayEmpty_def JSON_elements_empty filter_empty_conv)

text \<open>
  When an object serialises to \<open>{}\<close>: its \<open>toJSON\<close> method, if it has one, returns
  what serialises to \<open>{}\<close>; otherwise each of its properties serialises to
  \<open>undefined\<close>.
\<close>

lemma JSON_members_empty:
  "JSON_members ps = [] \<longleftrightarrow> (\<forall>(k, x) \<in> set ps. JSON_stringify x = None)"
proof (induction ps)
  case Nil
  then show ?case by simp
next
  case (Cons p ps)
  obtain k x where p: "p = (k, x)" by (cases p)
  show ?case
    using Cons.IH
    by (cases "JSON_stringify x") (auto simp: p)
qed

lemma JSON_stringify_object:
  "JSON_stringify (JObj ps) = Some (JsonObject [])
     \<longleftrightarrow> (case toJSON_of ps of
            Some r \<Rightarrow> r = Some (JsonObject [])
          | None \<Rightarrow> (\<forall>(k, x) \<in> set ps. JSON_stringify x = None))"
  by (simp add: JSON_members_empty split: option.splits)





subsection \<open>The polarity of isValid\<close>





subsection \<open>The validator table is shared\<close>

















subsection \<open>Where validateField returns\<close>
























text \<open>
  Names inherited from \<open>Object.prototype\<close>, on the value \<open>"x"\<close>: the rule
  \<open>{toString: {}}\<close> gives \<open>["[object Undefined]"]\<close>; \<open>{constructor: {}}\<close> gives an
  array that holds an object, unless a later name throws; \<open>{isPrototypeOf: {}}\<close>
  gives \<open>null\<close>; \<open>{hasOwnProperty: {}}\<close> throws. A model field named \<open>toString\<close>
  gets the entry \<open>null\<close> under any rule set, a field named \<open>__proto__\<close> gets none.
\<close>

lemma inherited_names_example:
  "(case validateField (fst with_rules) (JStr (str ''x''))
            (Some [(str ''toString'', Some no_option)]) (snd with_rules) of
      (r, w, h') \<Rightarrow> (case r of Inr (Some a) \<Rightarrow> get_array h' a = [str ''[object Undefined]'']
                      | _ \<Rightarrow> False))
   \<and> fst (validateField (fst with_rules) (JStr (str ''x''))
            (Some [(str ''constructor'', Some no_option)]) (snd with_rules)) = Inl Ill_typed
   \<and> fst (validateField (fst with_rules) (JStr (str ''x''))
            (Some [(str ''constructor'', Some no_option), (str ''phone'', None)]) (snd with_rules))
        = Inl (Throws TypeError)
   \<and> fst (validateField (fst with_rules) (JStr (str ''x''))
            (Some [(str ''isPrototypeOf'', Some no_option)]) (snd with_rules)) = Inr None
   \<and> fst (validateField (fst with_rules) (JStr (str ''x''))
            (Some [(str ''hasOwnProperty'', Some no_option)]) (snd with_rules))
        = Inl (Throws TypeError)
   \<and> (case validate (fst named_like_members) (Some [(str ''name'', [])]) (snd named_like_members) of
        (r, w, h') \<Rightarrow> (case r of Inr e \<Rightarrow> errors_content h' e = [(str ''toString'', None)]
                        | _ \<Rightarrow> False))"
  by code_simp

subsection \<open>Stores that agree below an address\<close>

lemma errors_content_entries: "errors_content h r = entries_content h (get_errors h r)"
  by (simp add: errors_content_def entries_content_def)

lemma same_below_refl: "same_below n h h"
  by (simp add: same_below_def)

lemma same_below_trans:
  "same_below n h h' \<Longrightarrow> same_below n h' h'' \<Longrightarrow> same_below n h h''"
  by (simp add: same_below_def)

lemma same_below_mono: "same_below n h h' \<Longrightarrow> m \<le> n \<Longrightarrow> same_below m h h'"
  by (simp add: same_below_def)

lemma alloc_array_same: "alloc_array xs h = (a, h') \<Longrightarrow> same_below (next_ref h) h h'"
  by (auto simp: alloc_array_def same_below_def)

lemma alloc_errors_same: "alloc_errors es h = (a, h') \<Longrightarrow> same_below (next_ref h) h h'"
  by (auto simp: alloc_errors_def same_below_def)

lemma entries_content_same:
  "allocated_entries h es \<Longrightarrow> same_below (next_ref h) h h' \<Longrightarrow>
     entries_content h' es = entries_content h es"
proof (induction es)
  case Nil
  then show ?case by (simp add: entries_content_def)
next
  case (Cons p es)
  obtain k e where p: "p = (k, e)" by (cases p)
  from Cons.prems have rest: "allocated_entries h es"
    by (simp add: allocated_entries_def)
  have "map_option (get_array h') e = map_option (get_array h) e"
  proof (cases e)
    case None
    then show ?thesis by simp
  next
    case (Some a)
    with Cons.prems p have "a < next_ref h" by (simp add: allocated_entries_def)
    with Cons.prems(2) have "string_arrays h' a = string_arrays h a"
      by (simp add: same_below_def)
    then show ?thesis by (simp add: Some get_array_def)
  qed
  with Cons.IH [OF rest Cons.prems(2)] show ?case
    by (simp add: entries_content_def p)
qed

lemma errors_content_same:
  assumes "allocated_errors h r" and "same_below (next_ref h) h h'"
  shows "errors_content h' r = errors_content h r"
proof -
  from assms have "error_messages h' r = error_messages h r"
    by (simp add: allocated_errors_def same_below_def)
  then have g: "get_errors h' r = get_errors h r" by (simp add: get_errors_def)
  from assms(1) have "allocated_entries h (get_errors h r)" by (simp add: allocated_errors_def)
  from entries_content_same [OF this assms(2)] show ?thesis
    by (simp add: errors_content_entries g)
qed

lemma errorsToArray_content:
  "errorsToArray this h
     = concat (map (\<lambda>(k, c). case c of None \<Rightarrow> [] | Some xs \<Rightarrow> filter (\<lambda>s. s \<noteq> []) xs)
                 (errors_content h (errors this)))"
proof -
  have "map (\<lambda>p. case p of None \<Rightarrow> str ''null'' | Some s \<Rightarrow> s)
          (filter (\<lambda>p. case p of None \<Rightarrow> False | Some s \<Rightarrow> s \<noteq> [])
             (concat (map (\<lambda>e. case e of None \<Rightarrow> [None] | Some a \<Rightarrow> map Some (get_array h a))
                (map snd es))))
        = concat (map (\<lambda>(k, c). case c of None \<Rightarrow> [] | Some xs \<Rightarrow> filter (\<lambda>s. s \<noteq> []) xs)
             (map (\<lambda>(k, e). (k, map_option (get_array h) e)) es))"
    for es :: "(jsstring \<times> ref option) list"
  proof (induction es)
    case Nil
    then show ?case by simp
  next
    case (Cons p es)
    obtain k e where p: "p = (k, e)" by (cases p)
    show ?case
      using Cons.IH
      by (cases e) (simp_all add: p filter_map comp_def)
  qed
  then show ?thesis by (simp add: errorsToArray_def errors_content_def Let_def)
qed

lemma isValid_content:
  "isValid this field h
     = (case field of
          Some f \<Rightarrow>
            if f \<noteq> [] then
              (case map_of (errors_content h (errors this)) f of
                 Some (Some xs) \<Rightarrow> xs \<noteq> []
               | _ \<Rightarrow> False)
            else errorsToArray this h \<noteq> []
        | None \<Rightarrow> errorsToArray this h \<noteq> [])"
proof -
  have "map_of (map (\<lambda>(k, e). (k, map_option (get_array h) e)) es) f
      = map_option (map_option (get_array h)) (map_of es f)"
    for es :: "(jsstring \<times> ref option) list" and f
    by (induction es) auto
  then show ?thesis
    by (auto simp: isValid_def errors_content_def split: option.splits)
qed

subsection \<open>validate and the stored errors\<close>

lemma validateField_same:
  "validateField this v opts h = (r, w, h') \<Longrightarrow>
     same_below (next_ref h) h h' \<and> next_ref h \<le> next_ref h'"
  by (auto simp: validateField_def alloc_array_def same_below_def Let_def
        split: option.splits prod.splits sum.splits if_splits)

lemma validate_loop_same:
  "validate_loop this rules errs fs h = (r, w, h') \<Longrightarrow> n \<le> errs \<Longrightarrow> n \<le> next_ref h \<Longrightarrow>
     same_below n h h'"
proof (induction fs arbitrary: h r w h')
  case Nil
  then show ?case by (simp add: same_below_refl)
next
  case (Cons a fs)
  obtain key x where a: "a = (key, x)" by (cases a)
  show ?case
  proof (cases "rule_of rules key")
    case None
    with Cons.prems a show ?thesis by (auto intro: Cons.IH)
  next
    case (Some fieldRules)
    obtain r1 w1 h1 where vf: "validateField this x (Some fieldRules) h = (r1, w1, h1)"
      by (cases "validateField this x (Some fieldRules) h")
    from validateField_same [OF vf] Cons.prems(3)
    have s1: "same_below n h h1" and n1: "n \<le> next_ref h1"
      by (auto intro: same_below_mono)
    show ?thesis
    proof (cases r1)
      case (Inl f)
      show ?thesis
      proof (cases f)
        case (Throws e)
        with Cons.prems(1) a Some vf Inl s1 show ?thesis by simp
      next
        case Ill_typed
        obtain r2 w2 h2 where l: "validate_loop this rules errs fs h1 = (r2, w2, h2)"
          by (cases "validate_loop this rules errs fs h1")
        from Cons.IH [OF l Cons.prems(2) n1] have "same_below n h1 h2" .
        with s1 have "same_below n h h2" by (blast intro: same_below_trans)
        moreover from Cons.prems(1) a Some vf Inl Ill_typed l have "h' = h2"
          by (cases r2) auto
        ultimately show ?thesis by simp
      qed
    next
      case (Inr res)
      let ?h = "h1\<lparr>error_messages := (error_messages h1)
                   (errs \<mapsto> assign_error key res (get_errors h1 errs))\<rparr>"
      obtain r2 w2 h2 where l: "validate_loop this rules errs fs ?h = (r2, w2, h2)"
        by (cases "validate_loop this rules errs fs ?h")
      from Cons.prems(2) have s2: "same_below n h1 ?h"
        by (auto simp: same_below_def)
      from n1 have "n \<le> next_ref ?h" by simp
      from Cons.IH [OF l Cons.prems(2) this] have "same_below n ?h h2" .
      with s1 s2 have "same_below n h h2" by (blast intro: same_below_trans)
      moreover from Cons.prems(1) a Some vf Inr l have "h' = h2" by simp
      ultimately show ?thesis by simp
    qed
  qed
qed

lemma validate_same: "validate this options h = (r, w, h') \<Longrightarrow> same_below (next_ref h) h h'"
proof -
  assume v: "validate this options h = (r, w, h')"
  obtain e h1 where al: "alloc_errors [] h = (e, h1)" by (cases "alloc_errors [] h")
  then have e: "e = next_ref h" and n1: "next_ref h1 = Suc (next_ref h)"
    by (auto simp: alloc_errors_def)
  have s1: "same_below (next_ref h) h h1" by (rule alloc_errors_same [OF al])
  show ?thesis
  proof (cases "rules_in_force this options")
    case None
    with v al s1 show ?thesis by (auto simp: validate_def rules_in_force_def Let_def)
  next
    case (Some rules)
    obtain r2 w2 h2 where l:
      "validate_loop this rules e (own_properties (model this)) h1 = (r2, w2, h2)"
      by (cases "validate_loop this rules e (own_properties (model this)) h1")
    from validate_loop_same [OF l, of "next_ref h"] e n1
    have "same_below (next_ref h) h1 h2" by simp
    with s1 have "same_below (next_ref h) h h2" by (blast intro: same_below_trans)
    moreover from v al Some l have "h' = h2"
      by (auto simp: validate_def rules_in_force_def Let_def split: sum.splits)
    ultimately show ?thesis by simp
  qed
qed

lemma validate_keeps_errors:
  assumes "allocated_errors h (errors this)" and "validate this options h = (r, w, h')"
  shows "errors_content h' (errors this) = errors_content h (errors this)
         \<and> isValid this field h' = isValid this field h
         \<and> errorsToArray this h' = errorsToArray this h"
proof -
  from errors_content_same [OF assms(1) validate_same [OF assms(2)]]
  have c: "errors_content h' (errors this) = errors_content h (errors this)" .
  then have e: "errorsToArray this h' = errorsToArray this h"
    by (simp add: errorsToArray_content)
  have "isValid this field h' = isValid this field h"
    unfolding isValid_content by (simp add: c e split: option.splits)
  with c e show ?thesis by simp
qed

lemma email_rejects: "emailValidator (JStr (str ''bad'')) (Some no_option) = Some msg_email"
  by code_simp

text \<open>
  C1 says that the results of \<open>validate\<close> are stored on the instance. The code
  returns them and stores nothing: for the model \<open>{email: "bad", pass: "abc123"}\<close>
  with the rules \<open>{email: {email: {}}, pass: {password: {}}}\<close>, \<open>validate()\<close>
  returns \<open>{email: [message], pass: null}\<close>, and afterwards the instance still
  holds \<open>{}\<close>: \<open>isValid("email")\<close> and \<open>isValid("pass")\<close> are false,
  \<open>errorsToArray()\<close> is empty and \<open>getErrors()\<close> returns \<open>{}\<close>.
\<close>

theorem validate_does_not_store:
  "case validate (fst with_rules) None (snd with_rules) of
     (r, w, h') \<Rightarrow>
       (case r of
          Inl e \<Rightarrow> False
        | Inr e \<Rightarrow> errors_content h' e = [(str ''email'', Some [msg_email]), (str ''pass'', None)])
       \<and> \<not> isValid (fst with_rules) (Some (str ''email'')) h'
       \<and> \<not> isValid (fst with_rules) (Some (str ''pass'')) h'
       \<and> errorsToArray (fst with_rules) h' = []
       \<and> errors_content h' (errors (fst with_rules)) = []
       \<and> (case getErrors (fst with_rules) h' of
             Inl e \<Rightarrow> False
           | Inr (c, h'') \<Rightarrow> errors_content h'' c = [])"
  by code_simp

theorem validate_does_not_store_witness:
  "errorsToArray (fst with_rules) (snd (snd (validate (fst with_rules) None (snd with_rules)))) = []"
  using validate_does_not_store by (simp split: prod.splits)

subsection \<open>The copy getErrors returns\<close>

lemma JSON_elements_strings: "JSON_elements (map JStr xs) = map JsonString xs"
  by (induction xs) simp_all

lemma JSON_parse_elements_strings: "JSON_parse_elements (map JsonString xs) = map JStr xs"
  by (induction xs) simp_all

lemma strings_of_strings: "strings_of (map JStr xs) = xs"
  by (induction xs) simp_all

lemma JSON_roundtrip_entries:
  "JSON_parse_members (JSON_members
      (map (\<lambda>(k, e). (k, case e of None \<Rightarrow> JNull | Some a \<Rightarrow> JArr (map JStr (get_array h a)))) es))
     = map (\<lambda>(k, e). (k, case e of None \<Rightarrow> JNull | Some a \<Rightarrow> JArr (map JStr (get_array h a)))) es"
proof (induction es)
  case Nil
  then show ?case by simp
next
  case (Cons p es)
  obtain k e where p: "p = (k, e)" by (cases p)
  show ?case
    using Cons.IH
    by (cases e) (simp_all add: p JSON_elements_strings JSON_parse_elements_strings)
qed

text \<open>A stored mapping has no \<open>toJSON\<close> method: its properties hold \<open>null\<close> or arrays.\<close>

lemma errors_value_toJSON:
  "toJSON_of (map (\<lambda>(k, e). (k, case e of None \<Rightarrow> JNull
                                   | Some a \<Rightarrow> JArr (map JStr (get_array h a)))) es) = None"
proof -
  have "map_of (map (\<lambda>(k, e). (k, case e of None \<Rightarrow> JNull
                                   | Some a \<Rightarrow> JArr (map JStr (get_array h a)))) es) n
      \<noteq> Some (JFun src r)" for n src r
    by (induction es) (auto split: option.splits)
  then show ?thesis by (simp add: toJSON_of_None_iff)
qed

lemma JSON_roundtrip_errors:
  "\<exists>j. JSON_stringify (errors_value h r) = Some j \<and> JSON_parse j = errors_value h r"
  by (simp add: errors_value_def errors_value_toJSON JSON_roundtrip_entries)

lemma value_content_errors:
  "errors_value h r = JObj ps \<Longrightarrow> value_content ps = errors_content h r"
proof -
  have "value_content
      (map (\<lambda>(k, e). (k, case e of None \<Rightarrow> JNull | Some a \<Rightarrow> JArr (map JStr (get_array h a)))) es)
     = map (\<lambda>(k, e). (k, map_option (get_array h) e)) es"
    for es :: "(jsstring \<times> ref option) list"
  proof (induction es)
    case Nil
    then show ?case by (simp add: value_content_def)
  next
    case (Cons p es)
    obtain k e where p: "p = (k, e)" by (cases p)
    show ?case
      using Cons.IH
      by (cases e) (simp_all add: p value_content_def strings_of_strings)
  qed
  moreover assume "errors_value h r = JObj ps"
  ultimately show ?thesis
    by (auto simp: errors_value_def errors_content_def)
qed

lemma new_entries_other:
  "(\<forall>xs. x \<noteq> JArr xs) \<Longrightarrow>
     new_entries ((k, x) # ps) h = (case new_entries ps h of (es, h') \<Rightarrow> ((k, None) # es, h'))"
  by (cases x) simp_all

lemma new_entries_props:
  "new_entries ps h = (es', h') \<Longrightarrow>
     next_ref h \<le> next_ref h' \<and> same_below (next_ref h) h h'
     \<and> fresh_entries (next_ref h) es' \<and> allocated_entries h' es'
     \<and> entries_content h' es' = value_content ps"
proof (induction ps arbitrary: h es' h')
  case Nil
  then show ?case
    by (simp add: same_below_refl fresh_entries_def allocated_entries_def entries_content_def
          value_content_def)
next
  case (Cons p ps)
  obtain k x where p: "p = (k, x)" by (cases p)
  show ?case
  proof (cases "\<exists>xs. x = JArr xs")
    case False
    obtain es1 h1 where c: "new_entries ps h = (es1, h1)" by (cases "new_entries ps h")
    from False have "new_entries ((k, x) # ps) h = ((k, None) # es1, h1)"
      by (simp add: new_entries_other c)
    with Cons.prems p have res: "es' = (k, None) # es1" "h' = h1" by simp_all
    from False have v: "(case x of JArr xs \<Rightarrow> Some (strings_of xs) | _ \<Rightarrow> None) = None"
      by (cases x) simp_all
    from Cons.IH [OF c] show ?thesis
      by (simp add: res p fresh_entries_def allocated_entries_def entries_content_def
            value_content_def v)
  next
    case True
    then obtain xs where x: "x = JArr xs" by blast
    obtain a h1 where al: "alloc_array (strings_of xs) h = (a, h1)"
      by (cases "alloc_array (strings_of xs) h")
    obtain es2 h2 where c: "new_entries ps h1 = (es2, h2)" by (cases "new_entries ps h1")
    from al have a: "a = next_ref h" and n1: "next_ref h1 = Suc (next_ref h)"
      and arr: "string_arrays h1 a = Some (strings_of xs)"
      by (auto simp: alloc_array_def)
    from Cons.IH [OF c]
    have ih: "next_ref h1 \<le> next_ref h2" "same_below (next_ref h1) h1 h2"
      "fresh_entries (next_ref h1) es2" "allocated_entries h2 es2"
      "entries_content h2 es2 = value_content ps"
      by simp_all
    have s01: "same_below (next_ref h) h h1" by (rule alloc_array_same [OF al])
    have s12: "same_below (next_ref h) h1 h2"
      by (rule same_below_mono [OF ih(2)]) (simp add: n1)
    have s02: "same_below (next_ref h) h h2" by (rule same_below_trans [OF s01 s12])
    from ih(2) arr a n1 have "string_arrays h2 a = Some (strings_of xs)"
      by (simp add: same_below_def)
    then have copy: "get_array h2 a = strings_of xs" by (simp add: get_array_def)
    from Cons.prems p x al c have res: "es' = (k, Some a) # es2" "h' = h2" by auto
    from ih(3) n1 have "fresh_entries (next_ref h) es2"
      by (auto simp: fresh_entries_def list_all_iff split: option.splits)
    with ih a n1 s02 copy show ?thesis
      by (auto simp: res p x fresh_entries_def allocated_entries_def entries_content_def
            value_content_def)
  qed
qed

text \<open>
  C8: \<open>getErrors\<close> returns, without throwing, a mapping with the content of the stored
  one, made of new objects only (the mapping and each of its arrays lie at fresh
  addresses), and leaves the store below them as it was. Whatever is then done to the
  objects it created, that is, in any store that agrees with the resulting one below
  the addresses that were fresh, the stored errors have the content they had, and
  \<open>isValid\<close> and \<open>errorsToArray\<close> answer as before.
\<close>

theorem getErrors_independent:
  "allocated_errors h (errors this) \<Longrightarrow>
     \<exists>r h'. getErrors this h = Inr (r, h')
       \<and> errors_content h' r = errors_content h (errors this)
       \<and> r \<noteq> errors this \<and> next_ref h \<le> r \<and> fresh_entries (next_ref h) (get_errors h' r)
       \<and> same_below (next_ref h) h h'
       \<and> (\<forall>h''. same_below (next_ref h) h' h'' \<longrightarrow>
             errors_content h'' (errors this) = errors_content h (errors this)
             \<and> (\<forall>field. isValid this field h'' = isValid this field h)
             \<and> errorsToArray this h'' = errorsToArray this h)"
proof -
  assume al: "allocated_errors h (errors this)"
  from JSON_roundtrip_errors obtain j where
    j: "JSON_stringify (errors_value h (errors this)) = Some j"
      "JSON_parse j = errors_value h (errors this)"
    by blast
  obtain ps where ps: "errors_value h (errors this) = JObj ps"
    by (simp add: errors_value_def)
  obtain es h1 where c: "new_entries ps h = (es, h1)" by (cases "new_entries ps h")
  obtain r h' where ae: "alloc_errors es h1 = (r, h')" by (cases "alloc_errors es h1")
  from j(2) ps have pj: "JSON_parse j = JObj ps" by simp
  have g: "getErrors this h = Inr (r, h')"
    unfolding getErrors_def j(1) by (simp add: new_errors_def pj c ae)
  from new_entries_props [OF c]
  have n1: "next_ref h \<le> next_ref h1" and s1: "same_below (next_ref h) h h1"
    and fr: "fresh_entries (next_ref h) es" and a1: "allocated_entries h1 es"
    and c1: "entries_content h1 es = value_content ps"
    by simp_all
  from ae have r: "r = next_ref h1" and ge: "get_errors h' r = es"
    by (auto simp: alloc_errors_def get_errors_def)
  have s2: "same_below (next_ref h1) h1 h'" by (rule alloc_errors_same [OF ae])
  have s: "same_below (next_ref h) h h'"
    by (rule same_below_trans [OF s1 same_below_mono [OF s2 n1]])
  have "errors_content h' r = entries_content h' es"
    by (simp add: errors_content_entries ge)
  also have "\<dots> = entries_content h1 es"
    by (rule entries_content_same [OF a1 s2])
  also have "\<dots> = errors_content h (errors this)"
    by (simp add: c1 value_content_errors [OF ps])
  finally have eq: "errors_content h' r = errors_content h (errors this)" .
  from al r n1 have ne: "r \<noteq> errors this" "next_ref h \<le> r"
    by (auto simp: allocated_errors_def)
  have later: "errors_content h'' (errors this) = errors_content h (errors this)
           \<and> (\<forall>field. isValid this field h'' = isValid this field h)
           \<and> errorsToArray this h'' = errorsToArray this h"
    if "same_below (next_ref h) h' h''" for h''
  proof -
    from s that have "same_below (next_ref h) h h''" by (rule same_below_trans)
    from errors_content_same [OF al this]
    have cc: "errors_content h'' (errors this) = errors_content h (errors this)" .
    then have e: "errorsToArray this h'' = errorsToArray this h"
      by (simp add: errorsToArray_content)
    have "isValid this field h'' = isValid this field h" for field
      unfolding isValid_content by (simp add: cc e split: option.splits)
    with cc e show ?thesis by simp
  qed
  from g eq ne fr s later show ?thesis by (simp add: ge)
qed

lemma stored_allocated: "allocated_errors stored_heap (errors stored_validator)"
  by (simp add: allocated_errors_def allocated_entries_def stored_heap_def stored_validator_def
        get_errors_def)

lemma stored_getErrors:
  "getErrors stored_validator stored_heap =
     Inr (4, stored_heap\<lparr>string_arrays := (string_arrays stored_heap)(3 \<mapsto> [msg_email]),
           error_messages := (error_messages stored_heap)(4 \<mapsto> [([], None), (str ''email'', Some 3)]),
           next_ref := 5\<rparr>)"
  by (simp add: getErrors_def new_errors_def errors_value_def stored_heap_def stored_validator_def
        get_errors_def get_array_def alloc_array_def alloc_errors_def toJSON_of_def str_def
        eval_nat_numeral)

theorem getErrors_independent_witness:
  "\<exists>r h'. getErrors stored_validator stored_heap = Inr (r, h')
       \<and> errors_content h' r = [([], None), (str ''email'', Some [msg_email])]
       \<and> isValid stored_validator (Some (str ''email''))
            (h'\<lparr>string_arrays := (string_arrays h')(3 \<mapsto> []),
                 error_messages := (error_messages h')(r \<mapsto> [])\<rparr>)
       \<and> errorsToArray stored_validator
            (h'\<lparr>string_arrays := (string_arrays h')(3 \<mapsto> []),
                 error_messages := (error_messages h')(r \<mapsto> [])\<rparr>) = [msg_email]"
proof -
  let ?h = "stored_heap\<lparr>string_arrays := (string_arrays stored_heap)(3 \<mapsto> [msg_email]),
           error_messages := (error_messages stored_heap)(4 \<mapsto> [([], None), (str ''email'', Some 3)]),
           next_ref := 5\<rparr>"
  let ?m = "?h\<lparr>string_arrays := (string_arrays ?h)(3 \<mapsto> []),
                 error_messages := (error_messages ?h)(4 \<mapsto> [])\<rparr>"
  from getErrors_independent [OF stored_allocated] stored_getErrors
  have ind: "errors_content ?h 4 = errors_content stored_heap (errors stored_validator)
      \<and> (\<forall>h''. same_below (next_ref stored_heap) ?h h'' \<longrightarrow>
             errors_content h'' (errors stored_validator)
               = errors_content stored_heap (errors stored_validator)
             \<and> (\<forall>field. isValid stored_validator field h'' = isValid stored_validator field stored_heap)
             \<and> errorsToArray stored_validator h'' = errorsToArray stored_validator stored_heap)"
    by auto
  have "same_below (next_ref stored_heap) ?h ?m"
    by (simp add: same_below_def stored_heap_def)
  with ind have m: "isValid stored_validator (Some (str ''email'')) ?m
        = isValid stored_validator (Some (str ''email'')) stored_heap
      \<and> errorsToArray stored_validator ?m = errorsToArray stored_validator stored_heap"
    by blast
  have c: "errors_content stored_heap (errors stored_validator)
      = [([], None), (str ''email'', Some [msg_email])]"
    by (simp add: errors_content_def stored_heap_def stored_validator_def get_errors_def
          get_array_def)
  have v: "isValid stored_validator (Some (str ''email'')) stored_heap"
    by (simp add: isValid_def stored_heap_def stored_validator_def get_errors_def get_array_def
          str_def msg_email_def)
  have a: "errorsToArray stored_validator stored_heap = [msg_email]"
    by (simp add: errorsToArray_def stored_heap_def stored_validator_def get_errors_def
          get_array_def msg_email_def)
  from ind m c v a show ?thesis
    by (simp add: stored_getErrors)
qed

subsection \<open>The dimension bounds of the image validator\<close>

text \<open>
  C2 says that a bound's message is appended when the image lies beyond the bound (below
  a minimum, above a maximum). The code compares the other way round: with one bound
  set, the message is appended exactly when the bound is nonzero and the image is
  above the minimum, or below the maximum; for the two widths the default messages are
  exchanged as well.
\<close>

theorem imageValidator_bounds:
  "imageValidator env (JBlob b) (Some (no_option\<lparr>opt_minWidth := Some (Fin n)\<rparr>))
     = (Inr (if n \<noteq> 0 \<and> n < int (naturalWidth (urlToImageElement env (blobToBase64 env b)))
             then Some [msg_maxWidth] else None), [])
   \<and> imageValidator env (JBlob b) (Some (no_option\<lparr>opt_maxWidth := Some (Fin n)\<rparr>))
     = (Inr (if n \<noteq> 0 \<and> int (naturalWidth (urlToImageElement env (blobToBase64 env b))) < n
             then Some [msg_minWidth] else None), [])
   \<and> imageValidator env (JBlob b) (Some (no_option\<lparr>opt_minHeight := Some (Fin n)\<rparr>))
     = (Inr (if n \<noteq> 0 \<and> n < int (naturalHeight (urlToImageElement env (blobToBase64 env b)))
             then Some [msg_minHeight] else None), [])
   \<and> imageValidator env (JBlob b) (Some (no_option\<lparr>opt_maxHeight := Some (Fin n)\<rparr>))
     = (Inr (if n \<noteq> 0 \<and> int (naturalHeight (urlToImageElement env (blobToBase64 env b))) < n
             then Some [msg_maxHeight] else None), [])"
  by (simp add: imageValidator_def dimension_errors_def size_errors_def type_errors_def
        no_option_def is_set_def bound_lt_def bound_gt_def num_gt_def message_for_def
        or_default_def Let_def)

theorem imageValidator_bounds_witness:
  "imageValidator (sample_env 200 200)
      (JBlob \<lparr>blob_size = 1024, blob_type = str ''image/png'', blob_bytes = []\<rparr>)
      (Some (no_option\<lparr>opt_minHeight := Some (Fin 100)\<rparr>))
     = (Inr (Some [msg_minHeight]), [])
   \<and> imageValidator (sample_env 200 200)
      (JBlob \<lparr>blob_size = 1024, blob_type = str ''image/png'', blob_bytes = []\<rparr>)
      (Some (no_option\<lparr>opt_minHeight := Some (Fin 300)\<rparr>))
     = (Inr None, [])"
  using imageValidator_bounds [of "sample_env 200 200"
      "\<lparr>blob_size = 1024, blob_type = str ''image/png'', blob_bytes = []\<rparr>" 100]
    imageValidator_bounds [of "sample_env 200 200"
      "\<lparr>blob_size = 1024, blob_type = str ''image/png'', blob_bytes = []\<rparr>" 300]
  by (simp add: sample_env_def)

end
